theory Spec2Isabelle
  imports Complex_Main
begin

section \<open>Data model (power\_monitor/models.py)\<close>

text \<open>
  The Django models are records; only the fields read or written by the services and
  views below are kept. A foreign key holds the referenced row (\<open>None\<close> for NULL); two
  device rows are the same device when their primary keys agree, as Django compares model
  instances. Dates are day ordinals (\<open>date.toordinal()\<close>), so \<open>timedelta(days=k)\<close> is the
  integer \<open>k\<close>; timestamps are seconds, and \<open>date_of\<close> gives the day a timestamp falls on.
  A Python \<open>float\<close> is modelled by the real number it denotes: the rounding of each
  floating-point operation is not part of the model.
\<close>

record Device =
  device_pk :: nat
  device_id :: string
  device_name :: string

record Client =
  client_pk :: nat
  name :: string
  email :: string
  whatsapp_number :: string
  devices :: "Device list"
  is_active :: bool
  receive_whatsapp_alerts :: bool
  receive_email_reports :: bool

record PowerReading =
  pr_device :: "Device option"
  power_factor :: real
  pr_timestamp :: int

record DailyConsumption =
  dc_device :: "Device option"
  dc_date :: int
  total_consumption :: real
  dc_peak_power :: real
  dc_total_cost :: real

record Alert =
  alert_pk :: nat
  alert_device :: "Device option"
  device_identifier :: string
  alert_type :: string
  message :: string
  alert_value :: "real option"
  severity :: string
  status :: string
  alert_timestamp :: int
  resolved_at :: "int option"
  whatsapp_sent :: bool
  whatsapp_sent_at :: "int option"

text \<open>The dictionary \<open>_get_device_statistics\<close> returns, one per device.\<close>

record device_stats =
  ds_device_id :: string
  ds_device_name :: string
  ds_consumption :: real
  ds_cost :: real
  ds_peak_power :: real
  ds_power_factors :: "real list"
  ds_uptime :: real
  ds_alerts :: nat
  ds_critical_alerts :: nat

record report_data_blob =
  rd_devices :: "device_stats list"
  rd_days_in_period :: int
  rd_generated_by :: string

record EnergyReport =
  report_pk :: nat
  client :: Client
  device :: "Device option"
  report_type :: string
  start_date :: int
  end_date :: int
  total_consumption_kwh :: real
  total_cost :: real
  avg_daily_consumption :: real
  peak_power :: real
  avg_power_factor :: real
  uptime_hours :: real
  total_alerts :: nat
  critical_alerts :: nat
  report_data :: report_data_blob
  sent_via_email :: bool
  sent_via_whatsapp :: bool

datatype response_payload = TwilioOk string string | TwilioError string

record WhatsAppMessage =
  wm_pk :: nat
  recipient :: string
  message_type :: string
  wm_status :: string
  wm_alert :: "nat option"
  wm_client :: "nat option"
  response_data :: "response_payload option"
  sent_at :: "int option"

datatype log_entry = LogInfo string | LogWarning string | LogError string

text \<open>The database tables and the log the code writes to.\<close>

record state =
  device_table :: "Device list"
  client_table :: "Client list"
  power_reading_table :: "PowerReading list"
  daily_consumption_table :: "DailyConsumption list"
  alert_table :: "Alert list"
  energy_report_table :: "EnergyReport list"
  whatsapp_message_table :: "WhatsAppMessage list"
  log :: "log_entry list"

definition date_of :: "int \<Rightarrow> int" where
  "date_of ts = ts div 86400"

definition same_device :: "Device option \<Rightarrow> Device \<Rightarrow> bool" where
  "same_device fk dev = (case fk of None \<Rightarrow> False | Some d \<Rightarrow> device_pk d = device_pk dev)"

definition logger :: "log_entry \<Rightarrow> state \<Rightarrow> state" where
  "logger e s = s\<lparr>log := log s @ [e]\<rparr>"

text \<open>
  The key of a new row (an auto-increment \<open>id\<close>): larger than every key in its table,
  so that saving the new row by its key touches no other row.
\<close>

definition fresh_pk :: "nat list \<Rightarrow> nat" where
  "fresh_pk pks = Suc (fold max pks 0)"

section \<open>Report synthesis (services/report\_service.py)\<close>

text \<open>
  Django's \<open>Sum\<close> and \<open>Max\<close> aggregates are NULL (Python \<open>None\<close>) over no rows;
  \<open>x or 0\<close> turns \<open>None\<close> (and a zero) into 0.
\<close>

definition Sum_agg :: "real list \<Rightarrow> real option" where
  "Sum_agg xs = (if xs = [] then None else Some (sum_list xs))"

definition Max_agg :: "real list \<Rightarrow> real option" where
  "Max_agg xs = (case xs of [] \<Rightarrow> None | x # rest \<Rightarrow> Some (fold max rest x))"

definition or_zero :: "real option \<Rightarrow> real" where
  "or_zero v = (case v of None \<Rightarrow> 0 | Some x \<Rightarrow> x)"

definition consumption_records :: "state \<Rightarrow> Device \<Rightarrow> int \<Rightarrow> int \<Rightarrow> DailyConsumption list" where
  "consumption_records s dev sd ed =
     filter (\<lambda>r. same_device (dc_device r) dev \<and> sd \<le> dc_date r \<and> dc_date r \<le> ed)
       (daily_consumption_table s)"

definition readings_in_range :: "state \<Rightarrow> Device \<Rightarrow> int \<Rightarrow> int \<Rightarrow> PowerReading list" where
  "readings_in_range s dev sd ed =
     filter (\<lambda>r. same_device (pr_device r) dev \<and> sd \<le> date_of (pr_timestamp r)
                  \<and> date_of (pr_timestamp r) \<le> ed)
       (power_reading_table s)"

definition alerts_in_range :: "state \<Rightarrow> Device \<Rightarrow> int \<Rightarrow> int \<Rightarrow> Alert list" where
  "alerts_in_range s dev sd ed =
     filter (\<lambda>a. same_device (alert_device a) dev \<and> sd \<le> date_of (alert_timestamp a)
                  \<and> date_of (alert_timestamp a) \<le> ed)
       (alert_table s)"

definition get_device_statistics :: "state \<Rightarrow> Device \<Rightarrow> int \<Rightarrow> int \<Rightarrow> device_stats" where
  "get_device_statistics s dev sd ed =
     (let records = consumption_records s dev sd ed;
          total = Sum_agg (map total_consumption records);
          cost = Sum_agg (map dc_total_cost records);
          peak = Max_agg (map dc_peak_power records);
          readings = readings_in_range s dev sd ed;
          power_factors = map power_factor readings;
          uptime = real (length readings) * (5 / 60);
          alerts = alerts_in_range s dev sd ed
      in \<lparr>ds_device_id = device_id dev,
          ds_device_name = device_name dev,
          ds_consumption = or_zero total,
          ds_cost = or_zero cost,
          ds_peak_power = or_zero peak,
          ds_power_factors = power_factors,
          ds_uptime = uptime,
          ds_alerts = length alerts,
          ds_critical_alerts = length (filter (\<lambda>a. severity a = ''CRITICAL'') alerts)\<rparr>)"

definition get_date_range :: "int \<Rightarrow> string \<Rightarrow> int \<times> int" where
  "get_date_range today rt =
     (let end_d = today
      in if rt = ''DAILY'' then (end_d, end_d)
         else if rt = ''WEEKLY'' then (end_d - 6, end_d)
         else if rt = ''MONTHLY'' then (end_d - 29, end_d)
         else (end_d - 6, end_d))"

text \<open>The running totals of the loop over the devices in \<open>generate_report\<close>.\<close>

record report_totals =
  acc_total_consumption :: real
  acc_total_cost :: real
  acc_peak_power :: real
  acc_power_factors :: "real list"
  acc_uptime_hours :: real
  acc_total_alerts :: nat
  acc_critical_alerts :: nat
  acc_device_data :: "device_stats list"

definition initial_totals :: report_totals where
  "initial_totals =
     \<lparr>acc_total_consumption = 0, acc_total_cost = 0, acc_peak_power = 0,
      acc_power_factors = [], acc_uptime_hours = 0, acc_total_alerts = 0,
      acc_critical_alerts = 0, acc_device_data = []\<rparr>"

definition add_device :: "device_stats \<Rightarrow> report_totals \<Rightarrow> report_totals" where
  "add_device st acc =
     \<lparr>acc_total_consumption = acc_total_consumption acc + ds_consumption st,
      acc_total_cost = acc_total_cost acc + ds_cost st,
      acc_peak_power = max (acc_peak_power acc) (ds_peak_power st),
      acc_power_factors = acc_power_factors acc @ ds_power_factors st,
      acc_uptime_hours = acc_uptime_hours acc + ds_uptime st,
      acc_total_alerts = acc_total_alerts acc + ds_alerts st,
      acc_critical_alerts = acc_critical_alerts acc + ds_critical_alerts st,
      acc_device_data = acc_device_data acc @ [st]\<rparr>"

fun aggregate_devices ::
  "state \<Rightarrow> int \<Rightarrow> int \<Rightarrow> Device list \<Rightarrow> report_totals \<Rightarrow> report_totals" where
  "aggregate_devices s sd ed [] acc = acc"
| "aggregate_devices s sd ed (dev # rest) acc =
     aggregate_devices s sd ed rest (add_device (get_device_statistics s dev sd ed) acc)"

definition report_devices :: "Client \<Rightarrow> Device option \<Rightarrow> Device list" where
  "report_devices c dev = (case dev of Some d \<Rightarrow> [d] | None \<Rightarrow> devices c)"

definition next_report_pk :: "state \<Rightarrow> nat" where
  "next_report_pk s = fresh_pk (map report_pk (energy_report_table s))"

text \<open>
  \<open>generate_report\<close>: \<open>today\<close> is \<open>timezone.now().date()\<close>. The result is the created
  report, or \<open>None\<close> when there is no device; the new state holds the created row and
  the log lines.
\<close>

definition generate_report ::
  "int \<Rightarrow> Client \<Rightarrow> string \<Rightarrow> Device option \<Rightarrow> int option \<Rightarrow> int option \<Rightarrow> state
     \<Rightarrow> EnergyReport option \<times> state" where
  "generate_report today c rt dev start_opt end_opt s =
     (let (sd, ed) = (case (start_opt, end_opt) of
                        (Some a, Some b) \<Rightarrow> (a, b)
                      | _ \<Rightarrow> get_date_range today rt);
          devs = report_devices c dev
      in if devs = [] then
           (None, logger (LogWarning (''No devices found for client '' @ name c)) s)
         else
           (let acc = aggregate_devices s sd ed devs initial_totals;
                days_in_period = (ed - sd) + 1;
                avg_daily = (if days_in_period > 0
                             then acc_total_consumption acc / real_of_int days_in_period else 0);
                avg_pf = (if acc_power_factors acc \<noteq> []
                          then sum_list (acc_power_factors acc)
                                 / real (length (acc_power_factors acc))
                          else 0);
                report = \<lparr>report_pk = next_report_pk s,
                          client = c,
                          device = dev,
                          report_type = rt,
                          start_date = sd,
                          end_date = ed,
                          total_consumption_kwh = acc_total_consumption acc,
                          total_cost = acc_total_cost acc,
                          avg_daily_consumption = avg_daily,
                          peak_power = acc_peak_power acc,
                          avg_power_factor = avg_pf,
                          uptime_hours = acc_uptime_hours acc,
                          total_alerts = acc_total_alerts acc,
                          critical_alerts = acc_critical_alerts acc,
                          report_data = \<lparr>rd_devices = acc_device_data acc,
                                         rd_days_in_period = days_in_period,
                                         rd_generated_by = ''system''\<rparr>,
                          sent_via_email = False,
                          sent_via_whatsapp = False\<rparr>;
                s1 = s\<lparr>energy_report_table := energy_report_table s @ [report]\<rparr>
            in (Some report,
                logger (LogInfo (''Generated '' @ rt @ '' report for '' @ name c)) s1)))"

section \<open>Transports and configuration\<close>

text \<open>
  \<open>settings\<close> holds the Django settings the services read with \<open>getattr(settings, ..., None)\<close>.
  The Twilio client and the SMTP backend are outside the repository: \<open>env\<close> carries what a
  call to them does (returning normally or raising), together with \<open>timezone.now()\<close>.
  The text of a message body is not modelled.
\<close>

record settings =
  TWILIO_ACCOUNT_SID :: "string option"
  TWILIO_AUTH_TOKEN :: "string option"
  TWILIO_WHATSAPP_NUMBER :: "string option"
  EMAIL_HOST :: "string option"
  EMAIL_HOST_USER :: "string option"
  EMAIL_HOST_PASSWORD :: "string option"
  DEFAULT_FROM_EMAIL :: "string option"

record env =
  cfg :: settings
  now :: int
  twilio_messages_create :: "string \<Rightarrow> string \<Rightarrow> string + (string \<times> string)"
  email_send :: "string \<Rightarrow> string \<Rightarrow> string option"

text \<open>Python truthiness of an optional string: \<open>None\<close> and \<open>''\<close> are false.\<close>

definition truthy :: "string option \<Rightarrow> bool" where
  "truthy v = (case v of None \<Rightarrow> False | Some x \<Rightarrow> x \<noteq> [])"

section \<open>WhatsApp dispatch (services/whatsapp\_service.py)\<close>

record WhatsAppService =
  account_sid :: "string option"
  auth_token :: "string option"
  from_number :: string
  enabled :: bool

definition WhatsAppService_init :: "env \<Rightarrow> state \<Rightarrow> WhatsAppService \<times> state" where
  "WhatsAppService_init e s =
     (let svc = \<lparr>account_sid = TWILIO_ACCOUNT_SID (cfg e),
                 auth_token = TWILIO_AUTH_TOKEN (cfg e),
                 from_number = (case TWILIO_WHATSAPP_NUMBER (cfg e) of
                                  None \<Rightarrow> ''whatsapp:+14155238886'' | Some n \<Rightarrow> n),
                 enabled = (truthy (TWILIO_ACCOUNT_SID (cfg e))
                            \<and> truthy (TWILIO_AUTH_TOKEN (cfg e)))\<rparr>
      in (svc, if \<not> enabled svc
               then logger (LogWarning
                      ''WhatsApp service not configured. Set TWILIO credentials in settings.'') s
               else s))"

definition startswith :: "string \<Rightarrow> string \<Rightarrow> bool" where
  "startswith s p = (take (length p) s = p)"

definition save_message :: "WhatsAppMessage \<Rightarrow> state \<Rightarrow> state" where
  "save_message m s =
     s\<lparr>whatsapp_message_table :=
         map (\<lambda>r. if wm_pk r = wm_pk m then m else r) (whatsapp_message_table s)\<rparr>"

definition save_alert :: "Alert \<Rightarrow> state \<Rightarrow> state" where
  "save_alert a s =
     s\<lparr>alert_table := map (\<lambda>r. if alert_pk r = alert_pk a then a else r) (alert_table s)\<rparr>"

definition save_report :: "EnergyReport \<Rightarrow> state \<Rightarrow> state" where
  "save_report r s =
     s\<lparr>energy_report_table :=
         map (\<lambda>x. if report_pk x = report_pk r then r else x) (energy_report_table s)\<rparr>"

definition next_message_pk :: "state \<Rightarrow> nat" where
  "next_message_pk s = fresh_pk (map wm_pk (whatsapp_message_table s))"

text \<open>
  \<open>_send_message\<close>: the row is created PENDING, then the provider is called; a normal
  return makes it SENT (and marks the alert), an exception makes it FAILED. The row is
  returned in both cases.
\<close>

definition send_message ::
  "env \<Rightarrow> WhatsAppService \<Rightarrow> string \<Rightarrow> Alert option \<Rightarrow> Client option \<Rightarrow> string \<Rightarrow> state
     \<Rightarrow> WhatsAppMessage \<times> state" where
  "send_message e svc to_number alert cl mtype s =
     (let to_n = (if \<not> startswith to_number ''whatsapp:''
                  then ''whatsapp:'' @ to_number else to_number);
          wa = \<lparr>wm_pk = next_message_pk s, recipient = to_n, message_type = mtype,
                wm_status = ''PENDING'', wm_alert = map_option alert_pk alert,
                wm_client = map_option client_pk cl, response_data = None, sent_at = None\<rparr>;
          s1 = s\<lparr>whatsapp_message_table := whatsapp_message_table s @ [wa]\<rparr>
      in case twilio_messages_create e (from_number svc) to_n of
           Inr (sid, st) \<Rightarrow>
             (let wa1 = wa\<lparr>wm_status := ''SENT'', sent_at := Some (now e),
                           response_data := Some (TwilioOk sid st)\<rparr>;
                  s2 = save_message wa1 s1;
                  s3 = (case alert of
                          Some a \<Rightarrow> save_alert (a\<lparr>whatsapp_sent := True,
                                                  whatsapp_sent_at := Some (now e)\<rparr>) s2
                        | None \<Rightarrow> s2)
              in (wa1, logger (LogInfo (''WhatsApp message sent to '' @ to_n)) s3))
         | Inl err \<Rightarrow>
             (let s2 = logger (LogError (''Failed to send WhatsApp to '' @ to_n @ '': '' @ err)) s1;
                  wa1 = wa\<lparr>wm_status := ''FAILED'', response_data := Some (TwilioError err)\<rparr>
              in (wa1, save_message wa1 s2)))"

definition has_device :: "Client \<Rightarrow> Device \<Rightarrow> bool" where
  "has_device c d = (device_pk d \<in> set (map device_pk (devices c)))"

definition get_alert_recipients ::
  "state \<Rightarrow> Alert \<Rightarrow> Client option \<Rightarrow> (string \<times> Client) list" where
  "get_alert_recipients s alert cl =
     (case cl of
        Some c \<Rightarrow>
          (if receive_whatsapp_alerts c \<and> whatsapp_number c \<noteq> []
           then [(whatsapp_number c, c)] else [])
      | None \<Rightarrow>
          (case alert_device alert of
             Some d \<Rightarrow>
               map (\<lambda>c. (whatsapp_number c, c))
                 (filter (\<lambda>c. whatsapp_number c \<noteq> [])
                    (filter (\<lambda>c. has_device c d \<and> receive_whatsapp_alerts c \<and> is_active c)
                       (client_table s)))
           | None \<Rightarrow> []))"

text \<open>\<open>str(n)\<close> for a natural number: its decimal digits.\<close>

definition digit_char :: "nat \<Rightarrow> char" where
  "digit_char d = ''0123456789'' ! d"

function show_nat :: "nat \<Rightarrow> string" where
  "show_nat n =
     (if n < 10 then [digit_char n]
      else show_nat (n div 10) @ [digit_char (n mod 10)])"
  by pat_completeness auto
termination
  by (relation "measure id") auto

declare show_nat.simps [simp del]

definition create_mock_message ::
  "env \<Rightarrow> Alert \<Rightarrow> Client option \<Rightarrow> state \<Rightarrow> WhatsAppMessage \<times> state" where
  "create_mock_message e alert cl s =
     (let wa = \<lparr>wm_pk = next_message_pk s,
                recipient = (case cl of Some c \<Rightarrow> whatsapp_number c
                             | None \<Rightarrow> ''whatsapp:+1234567890''),
                message_type = ''alert'', wm_status = ''SENT'',
                wm_alert = Some (alert_pk alert), wm_client = map_option client_pk cl,
                response_data = None, sent_at = Some (now e)\<rparr>;
          s1 = s\<lparr>whatsapp_message_table := whatsapp_message_table s @ [wa]\<rparr>
      in (wa, logger (LogInfo (''Mock WhatsApp message created for alert ''
                                 @ show_nat (alert_pk alert))) s1))"

fun send_to_recipients ::
  "env \<Rightarrow> WhatsAppService \<Rightarrow> Alert \<Rightarrow> (string \<times> Client) list \<Rightarrow> state
     \<Rightarrow> WhatsAppMessage list \<times> state" where
  "send_to_recipients e svc alert [] s = ([], s)"
| "send_to_recipients e svc alert ((phone, c) # rest) s =
     (let (r, s1) = send_message e svc phone (Some alert) (Some c) ''alert'' s;
          (rs, s2) = send_to_recipients e svc alert rest s1
      in (r # rs, s2))"

datatype alert_send_result =
  MockMessage WhatsAppMessage | NoRecipients | Results "WhatsAppMessage list"

definition send_alert_message ::
  "env \<Rightarrow> WhatsAppService \<Rightarrow> Alert \<Rightarrow> Client option \<Rightarrow> state \<Rightarrow> alert_send_result \<times> state" where
  "send_alert_message e svc alert cl s =
     (if \<not> enabled svc then
        (let s1 = logger (LogInfo (''WhatsApp disabled. Would send: '' @ message alert)) s;
             (wa, s2) = create_mock_message e alert cl s1
         in (MockMessage wa, s2))
      else
        (let recipients = get_alert_recipients s alert cl
         in if recipients = [] then
              (NoRecipients,
               logger (LogWarning (''No recipients found for alert '' @ show_nat (alert_pk alert))) s)
            else
              (let (rs, s1) = send_to_recipients e svc alert recipients s
               in (Results rs, s1))))"

definition send_report_summary ::
  "env \<Rightarrow> WhatsAppService \<Rightarrow> EnergyReport \<Rightarrow> state \<Rightarrow> WhatsAppMessage option \<times> state" where
  "send_report_summary e svc report s =
     (if \<not> enabled svc then
        (None, logger (LogInfo (''WhatsApp disabled. Would send report for ''
                                 @ name (client report))) s)
      else if \<not> receive_whatsapp_alerts (client report) then
        (None, logger (LogInfo (''Client '' @ name (client report)
                                 @ '' has WhatsApp alerts disabled'')) s)
      else
        (let (wa, s1) = send_message e svc (whatsapp_number (client report)) None
                          (Some (client report)) ''report'' s
         in (Some wa, s1)))"

section \<open>Email dispatch (services/email\_service.py)\<close>

record EmailService =
  from_email :: string
  email_enabled :: bool

definition check_email_config :: "settings \<Rightarrow> bool" where
  "check_email_config c =
     (truthy (EMAIL_HOST c) \<and> truthy (EMAIL_HOST_USER c) \<and> truthy (EMAIL_HOST_PASSWORD c))"

definition EmailService_init :: "env \<Rightarrow> state \<Rightarrow> EmailService \<times> state" where
  "EmailService_init e s =
     (let svc = \<lparr>from_email = (case DEFAULT_FROM_EMAIL (cfg e) of
                                None \<Rightarrow> ''noreply@powermonitor.com'' | Some a \<Rightarrow> a),
                 email_enabled = check_email_config (cfg e)\<rparr>
      in (svc, if \<not> email_enabled svc
               then logger (LogWarning
                 ''Email not configured. Set EMAIL_HOST_USER and EMAIL_HOST_PASSWORD in settings.'') s
               else s))"

text \<open>
  \<open>send_report_email\<close> returns \<open>True\<close> (sent, or logged by the mock), \<open>None\<close> (no address,
  or reports disabled) or \<open>False\<close> (the transport raised); it also returns the report,
  which it flags and saves after a real send.
\<close>

definition send_report_email ::
  "env \<Rightarrow> EmailService \<Rightarrow> EnergyReport \<Rightarrow> state \<Rightarrow> bool option \<times> EnergyReport \<times> state" where
  "send_report_email e svc report s =
     (if \<not> email_enabled svc then
        (let s1 = logger (LogInfo (''Email disabled. Would send report to ''
                                    @ email (client report))) s;
             s2 = logger (LogInfo (''MOCK EMAIL - Would send to: '' @ email (client report))) s1
         in (Some True, report, s2))
      else if email (client report) = [] then
        (None, report,
         logger (LogWarning (''Client '' @ name (client report) @ '' has no email address'')) s)
      else if \<not> receive_email_reports (client report) then
        (None, report,
         logger (LogInfo (''Client '' @ name (client report) @ '' has email reports disabled'')) s)
      else
        (case email_send e (from_email svc) (email (client report)) of
           None \<Rightarrow>
             (let report1 = report\<lparr>sent_via_email := True\<rparr>;
                  s1 = save_report report1 s
              in (Some True, report1,
                  logger (LogInfo (''Email report sent to '' @ email (client report))) s1))
         | Some err \<Rightarrow>
             (Some False, report,
              logger (LogError (''Failed to send email to '' @ email (client report)
                                 @ '': '' @ err)) s)))"

section \<open>Sending a report (ReportService.send\_report)\<close>

text \<open>
  The returned dictionary \<open>results\<close> is a map from the channel name to \<open>'sent'\<close> or
  \<open>'failed'\<close>. The function also returns the report object, whose delivery flags it sets.
\<close>

definition send_report ::
  "env \<Rightarrow> EnergyReport \<Rightarrow> bool \<Rightarrow> bool \<Rightarrow> state
     \<Rightarrow> (string \<rightharpoonup> string) \<times> EnergyReport \<times> state" where
  "send_report e report via_email via_whatsapp s =
     (let results0 = Map.empty;
          (results1, report1, s1) =
            (if via_email \<and> receive_email_reports (client report) then
               (let (email_service, sa) = EmailService_init e s;
                    (email_result, ra, sb) = send_report_email e email_service report sa
                in if email_result = Some True then
                     (let rb = ra\<lparr>sent_via_email := True\<rparr>
                      in (results0(''email'' \<mapsto> ''sent''), rb, save_report rb sb))
                   else (results0(''email'' \<mapsto> ''failed''), ra, sb))
             else (results0, report, s))
      in if via_whatsapp \<and> receive_whatsapp_alerts (client report1) then
           (let (wa_service, sa) = WhatsAppService_init e s1;
                (wa_result, sb) = send_report_summary e wa_service report1 sa
            in if wa_result \<noteq> None then
                 (let rb = report1\<lparr>sent_via_whatsapp := True\<rparr>
                  in (results1(''whatsapp'' \<mapsto> ''sent''), rb, save_report rb sb))
               else (results1(''whatsapp'' \<mapsto> ''failed''), report1, sb))
         else (results1, report1, s1))"

section \<open>Alert endpoints (views.py, AlertViewSet)\<close>

text \<open>
  The body of a POST to the alert endpoint: a field is \<open>None\<close> when its key is absent,
  and texts are ASCII. \<open>AlertSerializer\<close> is a \<open>ModelSerializer\<close>; its fields check the
  body as follows. A text field (\<open>alert_type\<close>, \<open>message\<close>, and \<open>device_id\<close> when given)
  is trimmed of surrounding whitespace, as Python's \<open>str.strip()\<close> does, must not be
  blank after trimming and must hold no NUL character; \<open>alert_type\<close> may be at most 50
  characters long. \<open>alert_type\<close> and \<open>message\<close> are required. \<open>severity\<close> and \<open>status\<close>
  must be one of their choices when given, and take the model's default when absent.
  The trimmed texts are what is saved.
\<close>

record alert_request =
  rq_device_id :: "string option"
  rq_device_name :: "string option"
  rq_alert_type :: "string option"
  rq_message :: "string option"
  rq_value :: "real option"
  rq_severity :: "string option"
  rq_status :: "string option"
  rq_resolved_at :: "int option"

datatype http_response =
  Response201 Alert | Response200 string | Response400 string | Response404

definition SEVERITY_CHOICES :: "string list" where
  "SEVERITY_CHOICES = [''INFO'', ''WARNING'', ''CRITICAL'']"

definition STATUS_CHOICES :: "string list" where
  "STATUS_CHOICES = [''ACTIVE'', ''ACKNOWLEDGED'', ''RESOLVED'']"

definition get_or_default :: "string option \<Rightarrow> string \<Rightarrow> string" where
  "get_or_default v d = (case v of None \<Rightarrow> d | Some x \<Rightarrow> x)"

definition isspace :: "char \<Rightarrow> bool" where
  "isspace c = (c \<in> set [CHR 0x09, CHR 0x0A, CHR 0x0B, CHR 0x0C, CHR 0x0D,
                          CHR 0x1C, CHR 0x1D, CHR 0x1E, CHR 0x1F, CHR 0x20])"

definition strip :: "string \<Rightarrow> string" where
  "strip x = rev (dropWhile isspace (rev (dropWhile isspace x)))"

definition char_field_valid :: "nat option \<Rightarrow> string \<Rightarrow> bool" where
  "char_field_valid max_length x =
     (strip x \<noteq> [] \<and> CHR 0x00 \<notin> set (strip x)
      \<and> (case max_length of None \<Rightarrow> True | Some n \<Rightarrow> length (strip x) \<le> n))"

definition serializer_is_valid :: "alert_request \<Rightarrow> bool" where
  "serializer_is_valid rq =
     ((case rq_device_id rq of None \<Rightarrow> True | Some v \<Rightarrow> char_field_valid None v)
      \<and> (case rq_alert_type rq of None \<Rightarrow> False | Some v \<Rightarrow> char_field_valid (Some 50) v)
      \<and> (case rq_message rq of None \<Rightarrow> False | Some v \<Rightarrow> char_field_valid None v)
      \<and> (case rq_severity rq of None \<Rightarrow> True | Some v \<Rightarrow> v \<in> set SEVERITY_CHOICES)
      \<and> (case rq_status rq of None \<Rightarrow> True | Some v \<Rightarrow> v \<in> set STATUS_CHOICES))"

definition get_or_create_device :: "string \<Rightarrow> string \<Rightarrow> state \<Rightarrow> Device \<times> state" where
  "get_or_create_device did dname s =
     (case find (\<lambda>d. device_id d = did) (device_table s) of
        Some d \<Rightarrow> (d, s)
      | None \<Rightarrow>
          (let d = \<lparr>device_pk = fresh_pk (map device_pk (device_table s)), device_id = did,
                    device_name = dname\<rparr>
           in (d, s\<lparr>device_table := device_table s @ [d]\<rparr>)))"

definition send_whatsapp_alert :: "env \<Rightarrow> Alert \<Rightarrow> state \<Rightarrow> state" where
  "send_whatsapp_alert e alert s =
     (if severity alert \<in> set [''WARNING'', ''CRITICAL''] then
        (let (wa_service, s1) = WhatsAppService_init e s;
             (r, s2) = send_alert_message e wa_service alert None s1
         in s2)
      else s)"

definition new_alert :: "env \<Rightarrow> alert_request \<Rightarrow> Device \<Rightarrow> string \<Rightarrow> state \<Rightarrow> Alert" where
  "new_alert e rq dev did s =
     \<lparr>alert_pk = fresh_pk (map alert_pk (alert_table s)),
      alert_device = Some dev,
      device_identifier = did,
      alert_type = strip (get_or_default (rq_alert_type rq) []),
      message = strip (get_or_default (rq_message rq) []),
      alert_value = rq_value rq,
      severity = get_or_default (rq_severity rq) ''INFO'',
      status = get_or_default (rq_status rq) ''ACTIVE'',
      alert_timestamp = now e,
      resolved_at = rq_resolved_at rq,
      whatsapp_sent = False,
      whatsapp_sent_at = None\<rparr>"

definition alert_create :: "env \<Rightarrow> alert_request \<Rightarrow> state \<Rightarrow> http_response \<times> state" where
  "alert_create e rq s =
     (let did = get_or_default (rq_device_id rq) ''default'';
          (dev, s1) = get_or_create_device did
                        (get_or_default (rq_device_name rq) ''Unknown Device'') s
      in if \<not> serializer_is_valid rq then (Response400 ''invalid'', s1)
         else
           (let alert = new_alert e rq dev did s1;
                s2 = s1\<lparr>alert_table := alert_table s1 @ [alert]\<rparr>;
                s3 = send_whatsapp_alert e alert s2
            in (Response201 alert, s3)))"

definition get_object :: "state \<Rightarrow> nat \<Rightarrow> Alert option" where
  "get_object s pk = find (\<lambda>a. alert_pk a = pk) (alert_table s)"

definition acknowledge :: "nat \<Rightarrow> state \<Rightarrow> http_response \<times> state" where
  "acknowledge pk s =
     (case get_object s pk of
        None \<Rightarrow> (Response404, s)
      | Some alert \<Rightarrow>
          (Response200 ''Alert acknowledged'',
           save_alert (alert\<lparr>status := ''ACKNOWLEDGED''\<rparr>) s))"

definition resolve :: "env \<Rightarrow> nat \<Rightarrow> state \<Rightarrow> http_response \<times> state" where
  "resolve e pk s =
     (case get_object s pk of
        None \<Rightarrow> (Response404, s)
      | Some alert \<Rightarrow>
          (Response200 ''Alert resolved'',
           save_alert (alert\<lparr>status := ''RESOLVED'', resolved_at := Some (now e)\<rparr>) s))"

text \<open>A sequence of operator actions on one alert, applied in order.\<close>

datatype operator_action = Acknowledge | Resolve

definition apply_action :: "env \<Rightarrow> nat \<Rightarrow> operator_action \<Rightarrow> state \<Rightarrow> state" where
  "apply_action e pk a s =
     (case a of Acknowledge \<Rightarrow> snd (acknowledge pk s) | Resolve \<Rightarrow> snd (resolve e pk s))"

fun apply_actions :: "env \<Rightarrow> nat \<Rightarrow> operator_action list \<Rightarrow> state \<Rightarrow> state" where
  "apply_actions e pk [] s = s"
| "apply_actions e pk (a # rest) s = apply_actions e pk rest (apply_action e pk a s)"

text \<open>The status an action writes.\<close>

definition status_after :: "operator_action \<Rightarrow> string" where
  "status_after a = (case a of Acknowledge \<Rightarrow> ''ACKNOWLEDGED'' | Resolve \<Rightarrow> ''RESOLVED'')"

definition alert_status :: "state \<Rightarrow> nat \<Rightarrow> string option" where
  "alert_status s pk = map_option status (get_object s pk)"

text \<open>
  The position of a status in the lifecycle ACTIVE, ACKNOWLEDGED, RESOLVED of the
  data model; a transition is forward when the position does not decrease.
\<close>

definition status_rank :: "string \<Rightarrow> nat" where
  "status_rank st =
     (if st = ''ACTIVE'' then 0 else if st = ''ACKNOWLEDGED'' then 1
      else if st = ''RESOLVED'' then 2 else 0)"

section \<open>Rendering (services/email\_service.py, services/pdf\_service.py)\<close>

text \<open>
  Python's fixed-point format \<open>{x:.pf}\<close> and \<open>{x:,.pf}\<close>: the value is rounded to \<open>p\<close>
  decimals, a tie going to the even digit, and printed with a leading minus when it
  is negative; the comma option groups the integer digits in threes.
\<close>

definition round_half_even :: "real \<Rightarrow> int" where
  "round_half_even x =
     (let f = \<lfloor>x\<rfloor>; d = x - of_int f
      in if d < 1 / 2 then f else if 1 / 2 < d then f + 1
         else if even f then f else f + 1)"

fun chunk3 :: "string \<Rightarrow> string" where
  "chunk3 (a # b # c # d # rest) = a # b # c # CHR '','' # chunk3 (d # rest)"
| "chunk3 xs = xs"

definition group_thousands :: "string \<Rightarrow> string" where
  "group_thousands ds = rev (chunk3 (rev ds))"

definition pad_left :: "nat \<Rightarrow> string \<Rightarrow> string" where
  "pad_left n ds = replicate (n - length ds) (CHR ''0'') @ ds"

definition format_f :: "nat \<Rightarrow> bool \<Rightarrow> real \<Rightarrow> string" where
  "format_f p comma x =
     (let m = nat (round_half_even (\<bar>x\<bar> * 10 ^ p));
          ip = show_nat (m div 10 ^ p);
          fp = pad_left p (show_nat (m mod 10 ^ p))
      in (if x < 0 then ''-'' else [])
         @ (if comma then group_thousands ip else ip)
         @ (if p = 0 then [] else ''.'' @ fp))"

definition show_int :: "int \<Rightarrow> string" where
  "show_int i = (if i < 0 then ''-'' @ show_nat (nat (- i)) else show_nat (nat i))"

text \<open>The naira sign of the templates, as its UTF-8 bytes.\<close>

definition naira :: string where
  "naira = [CHR 0xE2, CHR 0x82, CHR 0xA6]"

text \<open>
  Each renderer is given by the labelled figures it prints, in order, without the
  markup around them: the \<open>stat\<close> rows of the HTML report, the summary lines of the
  plain-text report, and the rows of the two PDF tables
  (\<open>_create_consumption_summary\<close>, \<open>_create_performance_metrics\<close>).
\<close>

definition generate_html_report :: "EnergyReport \<Rightarrow> (string \<times> string) list" where
  "generate_html_report r =
     [(''Total Consumption'', format_f 2 False (total_consumption_kwh r) @ '' kWh''),
      (''Daily Average'', format_f 2 False (avg_daily_consumption r) @ '' kWh''),
      (''Total Cost'', naira @ format_f 2 True (total_cost r)),
      (''Peak Power'', format_f 0 False (peak_power r) @ '' W''),
      (''Average Power Factor'', format_f 2 False (avg_power_factor r)),
      (''System Uptime'', format_f 1 False (uptime_hours r) @ '' hours'')]"

definition generate_text_report :: "EnergyReport \<Rightarrow> (string \<times> string) list" where
  "generate_text_report r =
     [(''Total Consumption'', format_f 2 False (total_consumption_kwh r) @ '' kWh''),
      (''Daily Average'', format_f 2 False (avg_daily_consumption r) @ '' kWh''),
      (''Total Cost'', naira @ format_f 2 True (total_cost r)),
      (''Peak Power'', format_f 0 False (peak_power r) @ '' W''),
      (''Average Power Factor'', format_f 2 False (avg_power_factor r)),
      (''System Uptime'', format_f 1 False (uptime_hours r) @ '' hours'')]"

definition create_consumption_summary :: "EnergyReport \<Rightarrow> (string \<times> string) list" where
  "create_consumption_summary r =
     [(''Total Consumption'', format_f 2 False (total_consumption_kwh r) @ '' kWh''),
      (''Daily Average'', format_f 2 False (avg_daily_consumption r) @ '' kWh''),
      (''Total Cost'', naira @ format_f 2 True (total_cost r)),
      (''Report Period'', show_int ((end_date r - start_date r) + 1) @ '' days'')]"

definition create_performance_metrics :: "EnergyReport \<Rightarrow> (string \<times> string) list" where
  "create_performance_metrics r =
     [(''Peak Power'', format_f 0 False (peak_power r) @ '' W''),
      (''Average Power Factor'', format_f 3 False (avg_power_factor r)),
      (''System Uptime'', format_f 1 False (uptime_hours r) @ '' hours'')]"

definition generate_report_pdf :: "EnergyReport \<Rightarrow> (string \<times> string) list" where
  "generate_report_pdf r = create_consumption_summary r @ create_performance_metrics r"

section \<open>Example data\<close>

text \<open>
  The scenario of the pooled power-factor average: device A with ten samples of 0.90 and
  device B with two samples of 0.80, seen from the day 2024-06-10 (ordinal 739047).
\<close>

definition device_a :: Device where
  "device_a = \<lparr>device_pk = 1, device_id = ''INV-A'', device_name = ''Inverter A''\<rparr>"

definition device_b :: Device where
  "device_b = \<lparr>device_pk = 2, device_id = ''INV-B'', device_name = ''Inverter B''\<rparr>"

definition acme :: Client where
  "acme = \<lparr>client_pk = 1, name = ''Acme'', email = ''ops@acme.example'',
           whatsapp_number = ''+2348000000001'', devices = [device_a, device_b],
           is_active = True, receive_whatsapp_alerts = True, receive_email_reports = True\<rparr>"

definition newcomer :: Client where
  "newcomer = \<lparr>client_pk = 2, name = ''Newcomer'', email = [],
               whatsapp_number = ''+2348000000002'', devices = [],
               is_active = True, receive_whatsapp_alerts = False, receive_email_reports = True\<rparr>"

definition reading :: "Device \<Rightarrow> real \<Rightarrow> int \<Rightarrow> PowerReading" where
  "reading d pf ts = \<lparr>pr_device = Some d, power_factor = pf, pr_timestamp = ts\<rparr>"

definition empty_state :: state where
  "empty_state = \<lparr>device_table = [], client_table = [], power_reading_table = [],
                  daily_consumption_table = [], alert_table = [], energy_report_table = [],
                  whatsapp_message_table = [], log = []\<rparr>"

definition pooled_state :: state where
  "pooled_state = empty_state
     \<lparr>device_table := [device_a, device_b], client_table := [acme, newcomer],
      power_reading_table :=
        replicate 10 (reading device_a (9 / 10) (739045 * 86400))
        @ replicate 2 (reading device_b (8 / 10) (739046 * 86400 + 300)),
      daily_consumption_table :=
        [\<lparr>dc_device = Some device_a, dc_date = 739045, total_consumption = 12,
          dc_peak_power = 1500, dc_total_cost = 600\<rparr>,
         \<lparr>dc_device = Some device_b, dc_date = 739046, total_consumption = 3,
          dc_peak_power = 900, dc_total_cost = 150\<rparr>,
         \<lparr>dc_device = Some device_b, dc_date = 739000, total_consumption = 40,
          dc_peak_power = 4000, dc_total_cost = 2000\<rparr>]\<rparr>"

text \<open>A client whose only device fed power back on its one recorded day (a negative peak).\<close>

definition exporter :: Client where
  "exporter = \<lparr>client_pk = 3, name = ''Exporter'', email = ''grid@exporter.example'',
               whatsapp_number = ''+2348000000003'', devices = [device_a],
               is_active = True, receive_whatsapp_alerts = True, receive_email_reports = True\<rparr>"

definition exporting_state :: state where
  "exporting_state = empty_state
     \<lparr>device_table := [device_a], client_table := [exporter],
      daily_consumption_table :=
        [\<lparr>dc_device = Some device_a, dc_date = 739045, total_consumption = 2,
          dc_peak_power = - 5, dc_total_cost = 100\<rparr>]\<rparr>"

definition exporting_report :: EnergyReport where
  "exporting_report =
     \<lparr>report_pk = 1, client = exporter, device = None, report_type = ''WEEKLY'',
      start_date = 739041, end_date = 739047, total_consumption_kwh = 2, total_cost = 100,
      avg_daily_consumption = 2 / 7, peak_power = 0, avg_power_factor = 0, uptime_hours = 0,
      total_alerts = 0, critical_alerts = 0,
      report_data =
        \<lparr>rd_devices = [\<lparr>ds_device_id = ''INV-A'', ds_device_name = ''Inverter A'',
                         ds_consumption = 2, ds_cost = 100, ds_peak_power = - 5,
                         ds_power_factors = [], ds_uptime = 0, ds_alerts = 0,
                         ds_critical_alerts = 0\<rparr>],
         rd_days_in_period = 7, rd_generated_by = ''system''\<rparr>,
      sent_via_email = False, sent_via_whatsapp = False\<rparr>"

text \<open>
  Two environments: one without any credentials (a development setup), one with Twilio and
  SMTP configured and answering; an alert on device A; a client who has switched WhatsApp
  off and has no email address; and reports already generated for two clients.
\<close>

definition no_settings :: settings where
  "no_settings = \<lparr>TWILIO_ACCOUNT_SID = None, TWILIO_AUTH_TOKEN = None,
                  TWILIO_WHATSAPP_NUMBER = None, EMAIL_HOST = None, EMAIL_HOST_USER = None,
                  EMAIL_HOST_PASSWORD = None, DEFAULT_FROM_EMAIL = None\<rparr>"

definition dev_env :: env where
  "dev_env = \<lparr>cfg = no_settings, now = 739047 * 86400 + 3600,
              twilio_messages_create = (\<lambda>f t. Inl ''no credentials''),
              email_send = (\<lambda>f t. Some ''no credentials'')\<rparr>"

definition live_settings :: settings where
  "live_settings = \<lparr>TWILIO_ACCOUNT_SID = Some ''AC123'', TWILIO_AUTH_TOKEN = Some ''token'',
                    TWILIO_WHATSAPP_NUMBER = None, EMAIL_HOST = Some ''smtp.example'',
                    EMAIL_HOST_USER = Some ''mailer'', EMAIL_HOST_PASSWORD = Some ''secret'',
                    DEFAULT_FROM_EMAIL = None\<rparr>"

definition live_env :: env where
  "live_env = \<lparr>cfg = live_settings, now = 739047 * 86400 + 3600,
               twilio_messages_create = (\<lambda>f t. Inr (''SM1'', ''queued'')),
               email_send = (\<lambda>f t. None)\<rparr>"

definition overvoltage :: Alert where
  "overvoltage = \<lparr>alert_pk = 1, alert_device = Some device_a, device_identifier = ''INV-A'',
                  alert_type = ''HIGH_VOLTAGE'', message = ''Voltage above 250V'',
                  alert_value = Some 253, severity = ''WARNING'', status = ''ACTIVE'',
                  alert_timestamp = 739046 * 86400, resolved_at = None,
                  whatsapp_sent = False, whatsapp_sent_at = None\<rparr>"

definition alarm_state :: state where
  "alarm_state = pooled_state\<lparr>alert_table := [overvoltage]\<rparr>"

definition info_request :: alert_request where
  "info_request = \<lparr>rq_device_id = Some ''INV-A'', rq_device_name = None,
                   rq_alert_type = Some ''LOW_LOAD'', rq_message = Some ''Load below 50W'',
                   rq_value = Some 42, rq_severity = Some ''INFO'', rq_status = None,
                   rq_resolved_at = None\<rparr>"

definition critical_request :: alert_request where
  "critical_request = \<lparr>rq_device_id = Some ''INV-A'', rq_device_name = None,
                       rq_alert_type = Some ''BATTERY_LOW'', rq_message = Some ''Battery at 12%'',
                       rq_value = Some 12, rq_severity = Some ''CRITICAL'', rq_status = None,
                       rq_resolved_at = None\<rparr>"

definition quiet :: Client where
  "quiet = \<lparr>client_pk = 4, name = ''Quiet'', email = [],
            whatsapp_number = ''+2348000000004'', devices = [device_a],
            is_active = True, receive_whatsapp_alerts = False, receive_email_reports = True\<rparr>"

definition quiet_report :: EnergyReport where
  "quiet_report = exporting_report\<lparr>report_pk := 2, client := quiet\<rparr>"

definition reported_state :: state where
  "reported_state = exporting_state
     \<lparr>client_table := [exporter, quiet],
      energy_report_table := [exporting_report, quiet_report]\<rparr>"

text \<open>A report with the figures of the examples: 45.2 kWh and the pooled power factor 53/60.\<close>

definition sample_report :: EnergyReport where
  "sample_report = exporting_report
     \<lparr>total_consumption_kwh := 452 / 10, total_cost := 1234567 / 100,
      avg_daily_consumption := 452 / 70, peak_power := 15005 / 10,
      avg_power_factor := 53 / 60, uptime_hours := 1675 / 10\<rparr>"

text \<open>A CRITICAL alert for a device that no client is attached to.\<close>

definition orphan_request :: alert_request where
  "orphan_request = \<lparr>rq_device_id = Some ''INV-Z'', rq_device_name = None,
                     rq_alert_type = Some ''BATTERY_LOW'', rq_message = Some ''Battery at 5%'',
                     rq_value = Some 5, rq_severity = Some ''CRITICAL'', rq_status = None,
                     rq_resolved_at = None\<rparr>"

definition orphan_alert :: Alert where
  "orphan_alert = \<lparr>alert_pk = 1,
                   alert_device = Some \<lparr>device_pk = 3, device_id = ''INV-Z'',
                                        device_name = ''Unknown Device''\<rparr>,
                   device_identifier = ''INV-Z'', alert_type = ''BATTERY_LOW'',
                   message = ''Battery at 5%'', alert_value = Some 5, severity = ''CRITICAL'',
                   status = ''ACTIVE'', alert_timestamp = 739047 * 86400 + 3600,
                   resolved_at = None, whatsapp_sent = False, whatsapp_sent_at = None\<rparr>"

section \<open>Properties of report synthesis\<close>

lemma or_zero_Sum_agg: "or_zero (Sum_agg xs) = sum_list xs"
  by (simp add: or_zero_def Sum_agg_def)

lemma Max_insert_max:
  "finite A \<Longrightarrow> Max (insert (max a b) A) = max a (Max (insert (b::real) A))"
  by (cases "A = {}") (simp_all add: max.assoc)

lemma aggregate_devices_consumption:
  "acc_total_consumption (aggregate_devices s sd ed devs acc) =
     acc_total_consumption acc
       + sum_list (map ds_consumption (map (\<lambda>d. get_device_statistics s d sd ed) devs))"
  by (induction devs arbitrary: acc) (simp_all add: add_device_def)

lemma aggregate_devices_cost:
  "acc_total_cost (aggregate_devices s sd ed devs acc) =
     acc_total_cost acc
       + sum_list (map ds_cost (map (\<lambda>d. get_device_statistics s d sd ed) devs))"
  by (induction devs arbitrary: acc) (simp_all add: add_device_def)

lemma aggregate_devices_peak:
  "acc_peak_power (aggregate_devices s sd ed devs acc) =
     Max (insert (acc_peak_power acc)
            (set (map ds_peak_power (map (\<lambda>d. get_device_statistics s d sd ed) devs))))"
proof (induction devs arbitrary: acc)
  case Nil
  then show ?case by simp
next
  case (Cons d devs)
  show ?case
    by (simp add: Cons.IH add_device_def Max_insert_max insert_commute max.commute)
qed

lemma aggregate_devices_power_factors:
  "acc_power_factors (aggregate_devices s sd ed devs acc) =
     acc_power_factors acc
       @ concat (map ds_power_factors (map (\<lambda>d. get_device_statistics s d sd ed) devs))"
  by (induction devs arbitrary: acc) (simp_all add: add_device_def)

lemma aggregate_devices_uptime:
  "acc_uptime_hours (aggregate_devices s sd ed devs acc) =
     acc_uptime_hours acc
       + sum_list (map ds_uptime (map (\<lambda>d. get_device_statistics s d sd ed) devs))"
  by (induction devs arbitrary: acc) (simp_all add: add_device_def)

lemma aggregate_devices_alerts:
  "acc_total_alerts (aggregate_devices s sd ed devs acc) =
     acc_total_alerts acc
       + sum_list (map ds_alerts (map (\<lambda>d. get_device_statistics s d sd ed) devs))"
  by (induction devs arbitrary: acc) (simp_all add: add_device_def)

lemma aggregate_devices_critical:
  "acc_critical_alerts (aggregate_devices s sd ed devs acc) =
     acc_critical_alerts acc
       + sum_list (map ds_critical_alerts (map (\<lambda>d. get_device_statistics s d sd ed) devs))"
  by (induction devs arbitrary: acc) (simp_all add: add_device_def)

lemma aggregate_devices_data:
  "acc_device_data (aggregate_devices s sd ed devs acc) =
     acc_device_data acc @ map (\<lambda>d. get_device_statistics s d sd ed) devs"
  by (induction devs arbitrary: acc) (simp_all add: add_device_def)

lemma ds_uptime_readings:
  "ds_uptime (get_device_statistics s d sd ed)
     = real (length (readings_in_range s d sd ed)) * (5 / 60)"
  by (simp add: get_device_statistics_def Let_def)

lemma generate_report_no_devices:
  assumes "report_devices c dev = []"
  shows "generate_report today c rt dev so eo s =
           (None, logger (LogWarning (''No devices found for client '' @ name c)) s)"
  using assms by (simp add: generate_report_def Let_def split: prod.splits)

lemma generate_report_created:
  assumes "report_devices c dev \<noteq> []"
    and "(case (so, eo) of (Some a, Some b) \<Rightarrow> (a, b) | _ \<Rightarrow> get_date_range today rt) = (sd, ed)"
    and "acc = aggregate_devices s sd ed (report_devices c dev) initial_totals"
  shows "\<exists>r s'. generate_report today c rt dev so eo s = (Some r, s')
           \<and> energy_report_table s' = energy_report_table s @ [r]
           \<and> client r = c \<and> device r = dev \<and> report_type r = rt
           \<and> start_date r = sd \<and> end_date r = ed
           \<and> total_consumption_kwh r = acc_total_consumption acc
           \<and> total_cost r = acc_total_cost acc
           \<and> peak_power r = acc_peak_power acc
           \<and> uptime_hours r = acc_uptime_hours acc
           \<and> total_alerts r = acc_total_alerts acc
           \<and> critical_alerts r = acc_critical_alerts acc
           \<and> rd_devices (report_data r) = acc_device_data acc
           \<and> avg_power_factor r =
                (if acc_power_factors acc \<noteq> []
                 then sum_list (acc_power_factors acc) / real (length (acc_power_factors acc))
                 else 0)"
  using assms by (simp add: generate_report_def Let_def logger_def)

text \<open>
  C1 (as amended). For a client with at least one attached device and no explicit device,
  \<open>generate_report\<close> creates a report whose per-device breakdown holds the statistics of
  each attached device over the report's period, and whose totals combine them: total
  consumption, total cost and the two alert counts are the sums over the devices; uptime
  is the sum over the devices of reading count times 5/60 hours; the average power factor
  is the mean of all power-factor samples pooled across the devices (0 when there is no
  sample); peak power is the largest of 0 and the per-device peaks.
\<close>

theorem generate_report_combines_devices:
  assumes "devices c \<noteq> []"
  shows "\<exists>r s'. generate_report today c rt None so eo s = (Some r, s')
     \<and> rd_devices (report_data r)
         = map (\<lambda>d. get_device_statistics s d (start_date r) (end_date r)) (devices c)
     \<and> total_consumption_kwh r = sum_list (map ds_consumption (rd_devices (report_data r)))
     \<and> total_cost r = sum_list (map ds_cost (rd_devices (report_data r)))
     \<and> peak_power r = Max (insert 0 (set (map ds_peak_power (rd_devices (report_data r)))))
     \<and> uptime_hours r
         = sum_list (map (\<lambda>d. real (length (readings_in_range s d (start_date r) (end_date r)))
                                * (5 / 60)) (devices c))
     \<and> total_alerts r = sum_list (map ds_alerts (rd_devices (report_data r)))
     \<and> critical_alerts r = sum_list (map ds_critical_alerts (rd_devices (report_data r)))
     \<and> avg_power_factor r
         = (if concat (map ds_power_factors (rd_devices (report_data r))) = [] then 0
            else sum_list (concat (map ds_power_factors (rd_devices (report_data r))))
                   / real (length (concat (map ds_power_factors (rd_devices (report_data r))))))"
proof -
  obtain sd ed where range:
    "(case (so, eo) of (Some a, Some b) \<Rightarrow> (a, b) | _ \<Rightarrow> get_date_range today rt) = (sd, ed)"
    by (cases "case (so, eo) of (Some a, Some b) \<Rightarrow> (a, b) | _ \<Rightarrow> get_date_range today rt") blast
  define acc where "acc = aggregate_devices s sd ed (report_devices c None) initial_totals"
  define sts where "sts = map (\<lambda>d. get_device_statistics s d sd ed) (devices c)"
  have devs: "report_devices c None = devices c"
    by (simp add: report_devices_def)
  from assms devs have "report_devices c None \<noteq> []" by simp
  from generate_report_created [OF this range acc_def]
  obtain r s' where r: "generate_report today c rt None so eo s = (Some r, s')"
    "start_date r = sd" "end_date r = ed"
    "total_consumption_kwh r = acc_total_consumption acc"
    "total_cost r = acc_total_cost acc"
    "peak_power r = acc_peak_power acc"
    "uptime_hours r = acc_uptime_hours acc"
    "total_alerts r = acc_total_alerts acc"
    "critical_alerts r = acc_critical_alerts acc"
    "rd_devices (report_data r) = acc_device_data acc"
    "avg_power_factor r =
       (if acc_power_factors acc \<noteq> []
        then sum_list (acc_power_factors acc) / real (length (acc_power_factors acc)) else 0)"
    by blast
  have data: "rd_devices (report_data r) = sts"
    by (simp add: r acc_def devs sts_def aggregate_devices_data initial_totals_def)
  have c1: "total_consumption_kwh r = sum_list (map ds_consumption sts)"
    by (simp add: r acc_def devs sts_def aggregate_devices_consumption initial_totals_def)
  have c2: "total_cost r = sum_list (map ds_cost sts)"
    by (simp add: r acc_def devs sts_def aggregate_devices_cost initial_totals_def)
  have c3: "peak_power r = Max (insert 0 (set (map ds_peak_power sts)))"
    by (simp add: r acc_def devs sts_def aggregate_devices_peak initial_totals_def)
  have c4: "uptime_hours r
      = sum_list (map (\<lambda>d. real (length (readings_in_range s d sd ed)) * (5 / 60)) (devices c))"
    by (simp add: r acc_def devs aggregate_devices_uptime initial_totals_def
          ds_uptime_readings comp_def)
  have c5: "total_alerts r = sum_list (map ds_alerts sts)"
    by (simp add: r acc_def devs sts_def aggregate_devices_alerts initial_totals_def)
  have c6: "critical_alerts r = sum_list (map ds_critical_alerts sts)"
    by (simp add: r acc_def devs sts_def aggregate_devices_critical initial_totals_def)
  have pf: "acc_power_factors acc = concat (map ds_power_factors sts)"
    by (simp add: acc_def devs sts_def aggregate_devices_power_factors initial_totals_def)
  have c7: "avg_power_factor r
      = (if concat (map ds_power_factors sts) = [] then 0
         else sum_list (concat (map ds_power_factors sts))
                / real (length (concat (map ds_power_factors sts))))"
    unfolding r(11) pf by simp
  show ?thesis
  proof (intro exI conjI)
    show "generate_report today c rt None so eo s = (Some r, s')" by (rule r(1))
    show "rd_devices (report_data r)
            = map (\<lambda>d. get_device_statistics s d (start_date r) (end_date r)) (devices c)"
      using data by (simp add: sts_def r(2) r(3))
    show "total_consumption_kwh r = sum_list (map ds_consumption (rd_devices (report_data r)))"
      using c1 by (simp add: data)
    show "total_cost r = sum_list (map ds_cost (rd_devices (report_data r)))"
      using c2 by (simp add: data)
    show "peak_power r = Max (insert 0 (set (map ds_peak_power (rd_devices (report_data r)))))"
      using c3 by (simp add: data)
    show "uptime_hours r
            = sum_list (map (\<lambda>d. real (length (readings_in_range s d (start_date r) (end_date r)))
                                   * (5 / 60)) (devices c))"
      using c4 by (simp add: r(2) r(3))
    show "total_alerts r = sum_list (map ds_alerts (rd_devices (report_data r)))"
      using c5 by (simp add: data)
    show "critical_alerts r = sum_list (map ds_critical_alerts (rd_devices (report_data r)))"
      using c6 by (simp add: data)
    show "avg_power_factor r
            = (if concat (map ds_power_factors (rd_devices (report_data r))) = [] then 0
               else sum_list (concat (map ds_power_factors (rd_devices (report_data r))))
                      / real (length (concat (map ds_power_factors (rd_devices (report_data r))))))"
      using c7 by (simp add: data)
  qed
qed

theorem generate_report_combines_devices_witness:
  "devices acme \<noteq> []
   \<and> map_option avg_power_factor
       (fst (generate_report 739047 acme ''WEEKLY'' None None None pooled_state)) = Some (53 / 60)
   \<and> map_option peak_power
       (fst (generate_report 739047 acme ''WEEKLY'' None None None pooled_state)) = Some 1500
   \<and> map_option total_consumption_kwh
       (fst (generate_report 739047 acme ''WEEKLY'' None None None pooled_state)) = Some 15
   \<and> map_option uptime_hours
       (fst (generate_report 739047 acme ''WEEKLY'' None None None pooled_state)) = Some 1"
proof -
  have ne: "devices acme \<noteq> []" by (simp add: acme_def)
  from generate_report_combines_devices [OF ne, of 739047 "''WEEKLY''" None None pooled_state]
  obtain r s' where r:
    "generate_report 739047 acme ''WEEKLY'' None None None pooled_state = (Some r, s')"
    "rd_devices (report_data r)
       = map (\<lambda>d. get_device_statistics pooled_state d (start_date r) (end_date r)) (devices acme)"
    "total_consumption_kwh r = sum_list (map ds_consumption (rd_devices (report_data r)))"
    "peak_power r = Max (insert 0 (set (map ds_peak_power (rd_devices (report_data r)))))"
    "uptime_hours r
       = sum_list (map (\<lambda>d. real (length (readings_in_range pooled_state d (start_date r) (end_date r)))
                              * (5 / 60)) (devices acme))"
    "avg_power_factor r
       = (if concat (map ds_power_factors (rd_devices (report_data r))) = [] then 0
          else sum_list (concat (map ds_power_factors (rd_devices (report_data r))))
                 / real (length (concat (map ds_power_factors (rd_devices (report_data r))))))"
    by blast
  have ev: "fst (generate_report 739047 acme ''WEEKLY'' None None None pooled_state) = Some r"
    by (simp add: r(1))
  have range: "start_date r = 739041" "end_date r = 739047"
    using r(1) by (auto simp: generate_report_def get_date_range_def Let_def report_devices_def acme_def)
  have sts: "rd_devices (report_data r)
      = [get_device_statistics pooled_state device_a 739041 739047,
         get_device_statistics pooled_state device_b 739041 739047]"
    unfolding r(2) range by (simp add: acme_def)
  have a: "get_device_statistics pooled_state device_a 739041 739047
      = \<lparr>ds_device_id = ''INV-A'', ds_device_name = ''Inverter A'', ds_consumption = 12,
         ds_cost = 600, ds_peak_power = 1500, ds_power_factors = replicate 10 (9 / 10),
         ds_uptime = 5 / 6, ds_alerts = 0, ds_critical_alerts = 0\<rparr>"
    by code_simp
  have b: "get_device_statistics pooled_state device_b 739041 739047
      = \<lparr>ds_device_id = ''INV-B'', ds_device_name = ''Inverter B'', ds_consumption = 3,
         ds_cost = 150, ds_peak_power = 900, ds_power_factors = replicate 2 (8 / 10),
         ds_uptime = 1 / 6, ds_alerts = 0, ds_critical_alerts = 0\<rparr>"
    by code_simp
  have la: "length (readings_in_range pooled_state device_a 739041 739047) = 10"
    by code_simp
  have lb: "length (readings_in_range pooled_state device_b 739041 739047) = 2"
    by code_simp
  have "avg_power_factor r = 53 / 60"
    unfolding r(6) sts a b by (simp add: sum_list_replicate)
  moreover have "peak_power r = 1500"
    unfolding r(4) sts a b by simp
  moreover have "total_consumption_kwh r = 15"
    unfolding r(3) sts a b by simp
  moreover have "uptime_hours r = 1"
    unfolding r(5) range by (simp add: acme_def la lb)
  ultimately show ?thesis using ne ev by simp
qed

theorem generate_report_peak_counterexample:
  "fst (generate_report 739047 exporter ''WEEKLY'' None None None exporting_state)
     = Some exporting_report
   \<and> map ds_peak_power (rd_devices (report_data exporting_report)) = [- 5]
   \<and> peak_power exporting_report = 0"
  by code_simp

text \<open>
  C2 (as amended). Without both an explicit start and an explicit end, the range comes from
  the report type: DAILY gives [today, today], WEEKLY [today-6, today], MONTHLY
  [today-29, today], and CUSTOM is given the weekly range [today-6, today] as well; the
  created report carries that range. With both dates given, the report carries them.
\<close>

theorem date_range_defaults:
  "get_date_range today ''DAILY'' = (today, today)
   \<and> get_date_range today ''WEEKLY'' = (today - 6, today)
   \<and> get_date_range today ''MONTHLY'' = (today - 29, today)
   \<and> get_date_range today ''CUSTOM'' = (today - 6, today)
   \<and> (report_devices c dev \<noteq> [] \<and> (so = None \<or> eo = None) \<longrightarrow>
        (\<exists>r s'. generate_report today c rt dev so eo s = (Some r, s')
                 \<and> (start_date r, end_date r) = get_date_range today rt))
   \<and> (report_devices c dev \<noteq> [] \<longrightarrow>
        (\<exists>r s'. generate_report today c rt dev (Some a) (Some b) s = (Some r, s')
                 \<and> start_date r = a \<and> end_date r = b))"
proof (intro conjI impI)
  show "get_date_range today ''DAILY'' = (today, today)"
    by (simp add: get_date_range_def)
  show "get_date_range today ''WEEKLY'' = (today - 6, today)"
    by (simp add: get_date_range_def)
  show "get_date_range today ''MONTHLY'' = (today - 29, today)"
    by (simp add: get_date_range_def)
  show "get_date_range today ''CUSTOM'' = (today - 6, today)"
    by (simp add: get_date_range_def)
next
  assume h: "report_devices c dev \<noteq> [] \<and> (so = None \<or> eo = None)"
  obtain sd ed where range: "get_date_range today rt = (sd, ed)"
    by (cases "get_date_range today rt") blast
  from h have "(case (so, eo) of (Some a, Some b) \<Rightarrow> (a, b) | _ \<Rightarrow> get_date_range today rt)
                 = (sd, ed)"
    by (auto simp: range split: option.splits)
  from generate_report_created [where s = s, OF conjunct1 [OF h] this refl]
  show "\<exists>r s'. generate_report today c rt dev so eo s = (Some r, s')
                \<and> (start_date r, end_date r) = get_date_range today rt"
    unfolding range by auto
next
  assume h: "report_devices c dev \<noteq> []"
  have "(case (Some a, Some b) of (Some a, Some b) \<Rightarrow> (a, b) | _ \<Rightarrow> get_date_range today rt)
          = (a, b)"
    by simp
  from generate_report_created [where s = s, OF h this refl]
  show "\<exists>r s'. generate_report today c rt dev (Some a) (Some b) s = (Some r, s')
                \<and> start_date r = a \<and> end_date r = b"
    by auto
qed

theorem date_range_defaults_witness:
  "report_devices acme None \<noteq> []
   \<and> get_date_range 739047 ''WEEKLY'' = (739041, 739047)
   \<and> map_option start_date
       (fst (generate_report 739047 acme ''WEEKLY'' None None None pooled_state)) = Some 739041
   \<and> map_option end_date
       (fst (generate_report 739047 acme ''WEEKLY'' None None None pooled_state)) = Some 739047
   \<and> map_option start_date
       (fst (generate_report 739047 acme ''CUSTOM'' None (Some 739001) (Some 739040) pooled_state))
       = Some 739001"
proof -
  have ne: "report_devices acme None \<noteq> []"
    by (simp add: report_devices_def acme_def)
  note t = date_range_defaults [of 739047 acme None None None "''WEEKLY''" pooled_state 739001 739040]
  from t have w: "get_date_range 739047 ''WEEKLY'' = (739041, 739047)" by simp
  from t ne obtain r s' where
    r: "generate_report 739047 acme ''WEEKLY'' None None None pooled_state = (Some r, s')"
       "(start_date r, end_date r) = get_date_range 739047 ''WEEKLY''"
    by blast
  note t2 = date_range_defaults [of 739047 acme None None None "''CUSTOM''" pooled_state 739001 739040]
  from t2 ne obtain r2 s2 where
    r2: "generate_report 739047 acme ''CUSTOM'' None (Some 739001) (Some 739040) pooled_state
           = (Some r2, s2)" "start_date r2 = 739001"
    by blast
  show ?thesis using ne w r r2 by simp
qed

theorem custom_default_range_counterexample:
  "get_date_range 739047 ''CUSTOM'' = (739041, 739047)
   \<and> map_option start_date
       (fst (generate_report 739047 acme ''CUSTOM'' None None None pooled_state)) = Some 739041
   \<and> map_option end_date
       (fst (generate_report 739047 acme ''CUSTOM'' None None None pooled_state)) = Some 739047"
  by code_simp

text \<open>
  C3. With an explicit device the device set is that single device, otherwise it is the
  list of devices attached to the client. When no device is given and the client has none,
  \<open>generate_report\<close> returns no report (\<open>None\<close>, after logging that no devices were found)
  and the table of reports is unchanged. When the device set is not empty, one report is
  created and its per-device breakdown lists exactly the devices of the set.
\<close>

theorem device_set_and_no_devices:
  "report_devices c (Some d) = [d]
   \<and> report_devices c None = devices c
   \<and> (devices c = [] \<longrightarrow>
        fst (generate_report today c rt None so eo s) = None
        \<and> energy_report_table (snd (generate_report today c rt None so eo s))
            = energy_report_table s
        \<and> log (snd (generate_report today c rt None so eo s))
            = log s @ [LogWarning (''No devices found for client '' @ name c)])
   \<and> (report_devices c dev \<noteq> [] \<longrightarrow>
        (\<exists>r s'. generate_report today c rt dev so eo s = (Some r, s')
                 \<and> energy_report_table s' = energy_report_table s @ [r]
                 \<and> device r = dev
                 \<and> map ds_device_id (rd_devices (report_data r))
                     = map device_id (report_devices c dev)))"
proof (intro conjI impI)
  show "report_devices c (Some d) = [d]" by (simp add: report_devices_def)
  show "report_devices c None = devices c" by (simp add: report_devices_def)
next
  assume "devices c = []"
  then have e: "report_devices c None = []" by (simp add: report_devices_def)
  show "fst (generate_report today c rt None so eo s) = None"
    by (simp add: generate_report_no_devices [OF e])
  show "energy_report_table (snd (generate_report today c rt None so eo s))
          = energy_report_table s"
    by (simp add: generate_report_no_devices [OF e] logger_def)
  show "log (snd (generate_report today c rt None so eo s))
          = log s @ [LogWarning (''No devices found for client '' @ name c)]"
    by (simp add: generate_report_no_devices [OF e] logger_def)
next
  assume h: "report_devices c dev \<noteq> []"
  obtain sd ed where range:
    "(case (so, eo) of (Some a, Some b) \<Rightarrow> (a, b) | _ \<Rightarrow> get_date_range today rt) = (sd, ed)"
    by (cases "case (so, eo) of (Some a, Some b) \<Rightarrow> (a, b) | _ \<Rightarrow> get_date_range today rt") blast
  from generate_report_created [where s = s, OF h range refl]
  obtain r s' where r: "generate_report today c rt dev so eo s = (Some r, s')"
    "energy_report_table s' = energy_report_table s @ [r]" "device r = dev"
    "rd_devices (report_data r)
       = acc_device_data (aggregate_devices s sd ed (report_devices c dev) initial_totals)"
    by blast
  have "map ds_device_id (rd_devices (report_data r)) = map device_id (report_devices c dev)"
    by (simp add: r(4) aggregate_devices_data initial_totals_def get_device_statistics_def
          Let_def comp_def)
  with r show "\<exists>r s'. generate_report today c rt dev so eo s = (Some r, s')
                 \<and> energy_report_table s' = energy_report_table s @ [r]
                 \<and> device r = dev
                 \<and> map ds_device_id (rd_devices (report_data r))
                     = map device_id (report_devices c dev)"
    by blast
qed

theorem device_set_and_no_devices_witness:
  "devices newcomer = []
   \<and> fst (generate_report 739047 newcomer ''WEEKLY'' None None None pooled_state) = None
   \<and> energy_report_table
       (snd (generate_report 739047 newcomer ''WEEKLY'' None None None pooled_state)) = []
   \<and> report_devices acme (Some device_b) \<noteq> []
   \<and> map_option device
       (fst (generate_report 739047 acme ''WEEKLY'' (Some device_b) None None pooled_state))
       = Some (Some device_b)"
proof -
  have e: "devices newcomer = []" by (simp add: newcomer_def)
  note t = device_set_and_no_devices
             [of newcomer device_b 739047 "''WEEKLY''" None None pooled_state None]
  from t e have
    n: "fst (generate_report 739047 newcomer ''WEEKLY'' None None None pooled_state) = None"
       "energy_report_table
          (snd (generate_report 739047 newcomer ''WEEKLY'' None None None pooled_state))
        = energy_report_table pooled_state"
    by blast+
  have tbl: "energy_report_table pooled_state = []"
    by (simp add: pooled_state_def empty_state_def)
  note u = device_set_and_no_devices
             [of acme device_b 739047 "''WEEKLY''" None None pooled_state "Some device_b"]
  from u have ne: "report_devices acme (Some device_b) \<noteq> []" by simp
  with u obtain r s' where
    r: "generate_report 739047 acme ''WEEKLY'' (Some device_b) None None pooled_state
          = (Some r, s')" "device r = Some device_b"
    by blast
  show ?thesis using e n tbl ne r by simp
qed

text \<open>
  C4. For a device with no daily-consumption record and no reading in the requested range,
  \<open>_get_device_statistics\<close> returns the zero record: consumption 0, cost 0, peak power 0
  (and no power-factor sample and no uptime). The function has no failing branch.
\<close>

theorem zero_readings_zero_record:
  assumes "consumption_records s dev sd ed = []"
    and "readings_in_range s dev sd ed = []"
  shows "ds_consumption (get_device_statistics s dev sd ed) = 0
     \<and> ds_cost (get_device_statistics s dev sd ed) = 0
     \<and> ds_peak_power (get_device_statistics s dev sd ed) = 0
     \<and> ds_power_factors (get_device_statistics s dev sd ed) = []
     \<and> ds_uptime (get_device_statistics s dev sd ed) = 0"
  using assms
  by (simp add: get_device_statistics_def Let_def Sum_agg_def Max_agg_def or_zero_def)

theorem zero_readings_zero_record_witness:
  "consumption_records pooled_state device_b 739001 739040 = []
   \<and> readings_in_range pooled_state device_b 739001 739040 = []
   \<and> ds_consumption (get_device_statistics pooled_state device_b 739001 739040) = 0
   \<and> ds_cost (get_device_statistics pooled_state device_b 739001 739040) = 0
   \<and> ds_peak_power (get_device_statistics pooled_state device_b 739001 739040) = 0"
proof -
  have c: "consumption_records pooled_state device_b 739001 739040 = []"
    by code_simp
  have r: "readings_in_range pooled_state device_b 739001 739040 = []"
    by code_simp
  from zero_readings_zero_record [OF c r] c r show ?thesis by simp
qed

text \<open>
  C10. For every report type other than DAILY, WEEKLY and MONTHLY (CUSTOM and any
  unrecognised string included), a call without both explicit dates takes the weekly range
  [today-6, today]: provided the device set is not empty, the report is created with that
  range and with the given type; nothing is rejected.
\<close>

theorem other_report_type_weekly_default:
  assumes "rt \<noteq> ''DAILY''" and "rt \<noteq> ''WEEKLY''" and "rt \<noteq> ''MONTHLY''"
    and "so = None \<or> eo = None"
    and "report_devices c dev \<noteq> []"
  shows "get_date_range today rt = (today - 6, today)
     \<and> (\<exists>r s'. generate_report today c rt dev so eo s = (Some r, s')
               \<and> energy_report_table s' = energy_report_table s @ [r]
               \<and> report_type r = rt
               \<and> start_date r = today - 6 \<and> end_date r = today)"
proof -
  have range: "get_date_range today rt = (today - 6, today)"
    using assms(1-3) by (simp add: get_date_range_def)
  from assms(4)
  have "(case (so, eo) of (Some a, Some b) \<Rightarrow> (a, b) | _ \<Rightarrow> get_date_range today rt)
          = (today - 6, today)"
    by (auto simp: range split: option.splits)
  from generate_report_created [where s = s, OF assms(5) this refl] range
  show ?thesis by blast
qed

theorem other_report_type_weekly_default_witness:
  "''fortnightly'' \<noteq> ''DAILY'' \<and> ''fortnightly'' \<noteq> ''WEEKLY'' \<and> ''fortnightly'' \<noteq> ''MONTHLY''
   \<and> report_devices acme None \<noteq> []
   \<and> get_date_range 739047 ''fortnightly'' = (739041, 739047)
   \<and> map_option report_type
       (fst (generate_report 739047 acme ''fortnightly'' None None None pooled_state))
       = Some ''fortnightly''
   \<and> map_option end_date
       (fst (generate_report 739047 acme ''fortnightly'' None None None pooled_state))
       = Some 739047
   \<and> map_option start_date
       (fst (generate_report 739047 acme ''fortnightly'' None None None pooled_state))
       = Some 739041"
proof -
  have a: "''fortnightly'' \<noteq> ''DAILY''" "''fortnightly'' \<noteq> ''WEEKLY''"
    "''fortnightly'' \<noteq> ''MONTHLY''"
    by simp_all
  have b: "(None :: int option) = None \<or> (None :: int option) = None" by simp
  have ne: "report_devices acme None \<noteq> []"
    by (simp add: report_devices_def acme_def)
  from other_report_type_weekly_default [OF a b ne, of 739047 pooled_state]
  obtain r s' where
    "get_date_range 739047 ''fortnightly'' = (739047 - 6, 739047)"
    "generate_report 739047 acme ''fortnightly'' None None None pooled_state = (Some r, s')"
    "report_type r = ''fortnightly''" "start_date r = 739047 - 6" "end_date r = 739047"
    by blast
  then show ?thesis using a ne by simp
qed

section \<open>Properties of dispatch\<close>

lemma logger_tables [simp]:
  "whatsapp_message_table (logger x s) = whatsapp_message_table s"
  "alert_table (logger x s) = alert_table s"
  "energy_report_table (logger x s) = energy_report_table s"
  "client_table (logger x s) = client_table s"
  "log (logger x s) = log s @ [x]"
  by (simp_all add: logger_def)

lemma save_report_tables [simp]:
  "whatsapp_message_table (save_report r s) = whatsapp_message_table s"
  "alert_table (save_report r s) = alert_table s"
  "log (save_report r s) = log s"
  by (simp_all add: save_report_def)

lemma save_message_tables [simp]:
  "alert_table (save_message m s) = alert_table s"
  "log (save_message m s) = log s"
  "length (whatsapp_message_table (save_message m s)) = length (whatsapp_message_table s)"
  by (simp_all add: save_message_def)

lemma save_alert_tables [simp]:
  "whatsapp_message_table (save_alert a s) = whatsapp_message_table s"
  "log (save_alert a s) = log s"
  "client_table (save_alert a s) = client_table s"
  by (simp_all add: save_alert_def)

lemma EmailService_init_frame:
  assumes "EmailService_init e s = (svc, s1)"
  shows "whatsapp_message_table s1 = whatsapp_message_table s"
  using assms by (auto simp: EmailService_init_def Let_def split: if_splits)

lemma send_report_email_frame:
  assumes "send_report_email e svc report s = (res, r1, s1)"
  shows "whatsapp_message_table s1 = whatsapp_message_table s
     \<and> client r1 = client report
     \<and> sent_via_whatsapp r1 = sent_via_whatsapp report"
  using assms
  by (auto simp: send_report_email_def Let_def split: if_splits option.splits)

lemma WhatsAppService_init_frame:
  assumes "WhatsAppService_init e s = (svc, s1)"
  shows "whatsapp_message_table s1 = whatsapp_message_table s
     \<and> alert_table s1 = alert_table s
     \<and> client_table s1 = client_table s
     \<and> enabled svc = (truthy (TWILIO_ACCOUNT_SID (cfg e)) \<and> truthy (TWILIO_AUTH_TOKEN (cfg e)))
     \<and> log s1 = (if enabled svc then log s
                  else log s @ [LogWarning
                    ''WhatsApp service not configured. Set TWILIO credentials in settings.''])"
  using assms by (auto simp: WhatsAppService_init_def Let_def split: if_splits)

lemma send_report_summary_disabled:
  assumes "send_report_summary e svc report s = (res, s1)"
    and "\<not> enabled svc \<or> \<not> receive_whatsapp_alerts (client report)"
  shows "res = None \<and> whatsapp_message_table s1 = whatsapp_message_table s"
  using assms by (auto simp: send_report_summary_def split: if_splits)

text \<open>The first half of \<open>send_report\<close> (the email channel), as one step.\<close>

lemma send_report_results_values:
  assumes "fst (send_report e report ve vw s) ch = Some v"
  shows "(ch = ''email'' \<or> ch = ''whatsapp'') \<and> (v = ''sent'' \<or> v = ''failed'')"
  using assms
  by (auto simp: send_report_def Let_def split: prod.splits if_splits)

lemma send_report_email_disabled:
  assumes "\<not> receive_email_reports (client report)"
  shows "fst (send_report e report ve vw s) ''email'' = None"
  using assms
  by (auto simp: send_report_def Let_def split: prod.splits if_splits)

lemma send_report_whatsapp_disabled:
  assumes "\<not> receive_whatsapp_alerts (client report)"
  shows "fst (send_report e report ve vw s) ''whatsapp'' = None
     \<and> whatsapp_message_table (snd (snd (send_report e report ve vw s)))
         = whatsapp_message_table s
     \<and> sent_via_whatsapp (fst (snd (send_report e report ve vw s))) = sent_via_whatsapp report"
  using assms
  by (auto simp: send_report_def Let_def split: prod.splits if_splits
           dest!: send_report_email_frame EmailService_init_frame)

text \<open>
  C6 (as amended). For every report send, a channel that the client has disabled in
  preferences gets no entry in the returned per-channel status map: the map only ever
  holds the values \<open>'sent'\<close> and \<open>'failed'\<close> under the keys \<open>'email'\<close> and \<open>'whatsapp'\<close>, the
  value \<open>'skipped'\<close> is never produced, and a skip is told from a failure by the absence of
  the key. For a disabled WhatsApp channel no message row is created and the report's
  WhatsApp flag is untouched.
\<close>

theorem disabled_channel_omitted:
  "(\<not> receive_email_reports (client report) \<longrightarrow>
      fst (send_report e report ve vw s) ''email'' = None)
   \<and> (\<not> receive_whatsapp_alerts (client report) \<longrightarrow>
        fst (send_report e report ve vw s) ''whatsapp'' = None
        \<and> whatsapp_message_table (snd (snd (send_report e report ve vw s)))
            = whatsapp_message_table s
        \<and> sent_via_whatsapp (fst (snd (send_report e report ve vw s)))
            = sent_via_whatsapp report)
   \<and> (\<forall>ch v. fst (send_report e report ve vw s) ch = Some v \<longrightarrow>
         (ch = ''email'' \<or> ch = ''whatsapp'') \<and> (v = ''sent'' \<or> v = ''failed'')
         \<and> v \<noteq> ''skipped'')"
proof (intro conjI impI allI)
  assume "\<not> receive_email_reports (client report)"
  then show "fst (send_report e report ve vw s) ''email'' = None"
    by (rule send_report_email_disabled)
next
  assume d: "\<not> receive_whatsapp_alerts (client report)"
  from send_report_whatsapp_disabled [OF d]
  show "fst (send_report e report ve vw s) ''whatsapp'' = None"
    and "whatsapp_message_table (snd (snd (send_report e report ve vw s)))
           = whatsapp_message_table s"
    and "sent_via_whatsapp (fst (snd (send_report e report ve vw s))) = sent_via_whatsapp report"
    by blast+
next
  fix ch v
  assume a: "fst (send_report e report ve vw s) ch = Some v"
  from send_report_results_values [OF a]
  show "ch = ''email'' \<or> ch = ''whatsapp''" and "v = ''sent'' \<or> v = ''failed''"
    by blast+
  then show "v \<noteq> ''skipped''" by auto
qed

theorem disabled_channel_omitted_witness:
  "\<not> receive_whatsapp_alerts (client quiet_report)
   \<and> fst (send_report live_env quiet_report True True reported_state) ''whatsapp'' = None
   \<and> whatsapp_message_table (snd (snd (send_report live_env quiet_report True True reported_state)))
       = []
   \<and> fst (send_report live_env exporting_report True True reported_state) ''whatsapp''
       = Some ''sent''
   \<and> ''sent'' \<noteq> ''skipped''"
proof -
  have d: "\<not> receive_whatsapp_alerts (client quiet_report)"
    by (simp add: quiet_report_def quiet_def)
  have t: "whatsapp_message_table reported_state = []"
    by (simp add: reported_state_def exporting_state_def empty_state_def)
  have sent: "fst (send_report live_env exporting_report True True reported_state) ''whatsapp''
                = Some ''sent''"
    by code_simp
  from disabled_channel_omitted [of quiet_report live_env True True reported_state] d t
  have "fst (send_report live_env quiet_report True True reported_state) ''whatsapp'' = None"
    and "whatsapp_message_table
           (snd (snd (send_report live_env quiet_report True True reported_state))) = []"
    by simp_all
  moreover
  from disabled_channel_omitted [of exporting_report live_env True True reported_state] sent
  have "''sent'' \<noteq> ''skipped''" by blast
  ultimately show ?thesis using d sent by simp
qed

theorem disabled_channel_counterexample:
  "receive_whatsapp_alerts (client quiet_report) = False
   \<and> email (client quiet_report) = []
   \<and> fst (send_report live_env quiet_report True True reported_state) ''whatsapp'' = None
   \<and> fst (send_report live_env quiet_report True True reported_state) ''email'' = Some ''failed''"
  by code_simp

text \<open>
  C7 (the code at the failing input). With no Twilio credentials, sending a report to a
  client who accepts WhatsApp creates no message row, leaves \<open>sent_via_whatsapp\<close> false
  and reports the channel as \<open>'failed'\<close>; in the same environment the email channel is
  mocked as \<open>'sent'\<close>, and an alert creates a mock message row with status SENT.
\<close>

theorem unconfigured_report_send_fails:
  "enabled (fst (WhatsAppService_init dev_env reported_state)) = False
   \<and> receive_whatsapp_alerts (client exporting_report) = True
   \<and> fst (send_report dev_env exporting_report True True reported_state) ''whatsapp''
       = Some ''failed''
   \<and> whatsapp_message_table (snd (snd (send_report dev_env exporting_report True True reported_state)))
       = []
   \<and> sent_via_whatsapp (fst (snd (send_report dev_env exporting_report True True reported_state)))
       = False
   \<and> fst (send_report dev_env exporting_report True True reported_state) ''email''
       = Some ''sent''
   \<and> map wm_status (whatsapp_message_table
        (snd (send_alert_message dev_env (fst (WhatsAppService_init dev_env alarm_state))
                overvoltage None alarm_state)))
       = [''SENT'']"
proof -
  have off: "enabled (fst (WhatsAppService_init dev_env st)) = False" for st
    by (simp add: WhatsAppService_init_def dev_env_def no_settings_def truthy_def Let_def)
  have cl: "receive_whatsapp_alerts (client exporting_report) = True"
    by (simp add: exporting_report_def exporter_def)
  have rep: "fst (send_report dev_env exporting_report True True reported_state) ''whatsapp''
               = Some ''failed''"
    "whatsapp_message_table (snd (snd (send_report dev_env exporting_report True True reported_state)))
       = []"
    "sent_via_whatsapp (fst (snd (send_report dev_env exporting_report True True reported_state)))
       = False"
    "fst (send_report dev_env exporting_report True True reported_state) ''email'' = Some ''sent''"
    by code_simp+
  have tbl: "whatsapp_message_table alarm_state = []"
    by (simp add: alarm_state_def pooled_state_def empty_state_def)
  have "map wm_status (whatsapp_message_table
          (snd (send_alert_message dev_env (fst (WhatsAppService_init dev_env alarm_state))
                  overvoltage None alarm_state))) = [''SENT'']"
    using off [of alarm_state] tbl
    by (simp add: send_alert_message_def create_mock_message_def Let_def)
  with off cl rep show ?thesis by simp
qed

section \<open>Properties of the alert endpoints\<close>

lemma get_or_create_device_frame:
  assumes "get_or_create_device did dname s = (d, s1)"
  shows "whatsapp_message_table s1 = whatsapp_message_table s
     \<and> alert_table s1 = alert_table s \<and> log s1 = log s"
  using assms by (auto simp: get_or_create_device_def Let_def split: option.splits)

lemma send_message_log:
  "length (log (snd (send_message e svc to_number al cl mt s))) = Suc (length (log s))"
  by (auto simp: send_message_def Let_def split: sum.splits option.splits prod.splits)

lemma send_message_rows:
  "length (whatsapp_message_table (snd (send_message e svc to_number al cl mt s)))
     = Suc (length (whatsapp_message_table s))"
  by (auto simp: send_message_def Let_def split: sum.splits option.splits prod.splits)

lemma save_alert_stored:
  assumes "\<exists>a\<in>set (alert_table s). alert_pk a = pk \<and> severity a = sev"
    and "alert_pk b = pk \<longrightarrow> severity b = sev"
  shows "\<exists>a\<in>set (alert_table (save_alert b s)). alert_pk a = pk \<and> severity a = sev"
proof -
  from assms(1) obtain a where a: "a \<in> set (alert_table s)" "alert_pk a = pk" "severity a = sev"
    by blast
  let ?f = "\<lambda>r. if alert_pk r = alert_pk b then b else r"
  have "?f a \<in> set (alert_table (save_alert b s))"
    using a(1) by (simp add: save_alert_def)
  moreover have "alert_pk (?f a) = pk \<and> severity (?f a) = sev"
    using a(2,3) assms(2) by auto
  ultimately show ?thesis by blast
qed

lemma send_message_stored:
  assumes "\<exists>a\<in>set (alert_table s). alert_pk a = alert_pk al \<and> severity a = severity al"
  shows "\<exists>a\<in>set (alert_table (snd (send_message e svc to_number (Some al) cl mt s))).
           alert_pk a = alert_pk al \<and> severity a = severity al"
proof (cases "twilio_messages_create e (from_number svc)
                (if \<not> startswith to_number ''whatsapp:'' then ''whatsapp:'' @ to_number
                 else to_number)")
  case (Inl err)
  then show ?thesis using assms by (simp add: send_message_def Let_def)
next
  case (Inr ok)
  obtain sid st where ok: "ok = (sid, st)" by (cases ok)
  let ?s1 = "s\<lparr>whatsapp_message_table := whatsapp_message_table s @
               [\<lparr>wm_pk = next_message_pk s,
                 recipient = (if \<not> startswith to_number ''whatsapp:''
                              then ''whatsapp:'' @ to_number else to_number),
                 message_type = mt, wm_status = ''PENDING'', wm_alert = Some (alert_pk al),
                 wm_client = map_option client_pk cl, response_data = None, sent_at = None\<rparr>]\<rparr>"
  have "\<exists>a\<in>set (alert_table ?s1). alert_pk a = alert_pk al \<and> severity a = severity al"
    using assms by simp
  then have "\<exists>a\<in>set (alert_table
                (save_alert (al\<lparr>whatsapp_sent := True, whatsapp_sent_at := Some (now e)\<rparr>) s2)).
               alert_pk a = alert_pk al \<and> severity a = severity al"
    if "alert_table s2 = alert_table ?s1" for s2
    using that save_alert_stored [of s2 "alert_pk al" "severity al"
            "al\<lparr>whatsapp_sent := True, whatsapp_sent_at := Some (now e)\<rparr>"]
    by simp
  then show ?thesis using Inr ok by (simp add: send_message_def Let_def)
qed

lemma send_to_recipients_effect:
  assumes "\<exists>a\<in>set (alert_table s). alert_pk a = alert_pk al \<and> severity a = severity al"
  shows "length (log (snd (send_to_recipients e svc al rs s))) = length (log s) + length rs
     \<and> length (whatsapp_message_table (snd (send_to_recipients e svc al rs s)))
         = length (whatsapp_message_table s) + length rs
     \<and> (\<exists>a\<in>set (alert_table (snd (send_to_recipients e svc al rs s))).
           alert_pk a = alert_pk al \<and> severity a = severity al)"
  using assms
proof (induction rs arbitrary: s)
  case Nil
  then show ?case by simp
next
  case (Cons r rs)
  obtain phone c where r: "r = (phone, c)" by (cases r)
  let ?s1 = "snd (send_message e svc phone (Some al) (Some c) ''alert'' s)"
  have st: "\<exists>a\<in>set (alert_table ?s1). alert_pk a = alert_pk al \<and> severity a = severity al"
    by (rule send_message_stored [OF Cons.prems])
  have step: "snd (send_to_recipients e svc al (r # rs) s) = snd (send_to_recipients e svc al rs ?s1)"
    by (simp add: r split: prod.splits)
  show ?case
    unfolding step using Cons.IH [OF st]
    by (simp add: send_message_log send_message_rows)
qed

text \<open>What a call to the dispatcher leaves behind, in each of its three branches.\<close>

lemma send_alert_message_effect:
  assumes "\<exists>a\<in>set (alert_table s). alert_pk a = alert_pk al \<and> severity a = severity al"
  shows "length (log s) < length (log (snd (send_alert_message e svc al None s)))
     \<and> (\<exists>a\<in>set (alert_table (snd (send_alert_message e svc al None s))).
           alert_pk a = alert_pk al \<and> severity a = severity al)
     \<and> (\<not> enabled svc \<longrightarrow>
          (\<exists>m. whatsapp_message_table (snd (send_alert_message e svc al None s))
                  = whatsapp_message_table s @ [m]
                \<and> wm_status m = ''SENT'' \<and> wm_alert m = Some (alert_pk al)
                \<and> message_type m = ''alert''))
     \<and> (enabled svc \<longrightarrow>
          length (whatsapp_message_table (snd (send_alert_message e svc al None s)))
            = length (whatsapp_message_table s) + length (get_alert_recipients s al None))"
proof (cases "enabled svc")
  case False
  then show ?thesis using assms
    by (simp add: send_alert_message_def create_mock_message_def Let_def)
next
  case True
  show ?thesis
  proof (cases "get_alert_recipients s al None = []")
    case True
    with \<open>enabled svc\<close> show ?thesis using assms
      by (simp add: send_alert_message_def Let_def)
  next
    case False
    then have pos: "0 < length (get_alert_recipients s al None)" by simp
    have run: "snd (send_alert_message e svc al None s)
                 = snd (send_to_recipients e svc al (get_alert_recipients s al None) s)"
      using False \<open>enabled svc\<close>
      by (simp add: send_alert_message_def Let_def split: prod.splits)
    from send_to_recipients_effect [OF assms, of e svc "get_alert_recipients s al None"] pos
    show ?thesis unfolding run using \<open>enabled svc\<close> by simp
  qed
qed

lemma fold_max_bounds:
  "(a::nat) \<le> fold max pks a \<and> (\<forall>x\<in>set pks. x \<le> fold max pks a)"
proof (induction pks arbitrary: a)
  case Nil
  then show ?case by simp
next
  case (Cons p pks)
  from Cons.IH [of "max p a"] show ?case by auto
qed

lemma fresh_pk_new:
  assumes "pk \<in> set pks"
  shows "pk \<noteq> fresh_pk pks"
  using assms fold_max_bounds [of 0 pks] by (auto simp: fresh_pk_def)

lemma save_old_rows:
  "map (\<lambda>r. if wm_pk r = fresh_pk (map wm_pk tbl) then m else r) tbl = tbl"
proof (intro map_idI)
  fix r
  assume "r \<in> set tbl"
  then have "wm_pk r \<noteq> fresh_pk (map wm_pk tbl)"
    using fresh_pk_new [of "wm_pk r" "map wm_pk tbl"] by simp
  then show "(if wm_pk r = fresh_pk (map wm_pk tbl) then m else r) = r" by simp
qed

text \<open>The address a message is sent to, and the status the provider call leaves.\<close>

lemma send_message_row:
  "whatsapp_message_table (snd (send_message e svc p al cl mt s))
     = whatsapp_message_table s @ [fst (send_message e svc p al cl mt s)]
   \<and> client_table (snd (send_message e svc p al cl mt s)) = client_table s
   \<and> recipient (fst (send_message e svc p al cl mt s))
       = (if startswith p ''whatsapp:'' then p else ''whatsapp:'' @ p)
   \<and> wm_client (fst (send_message e svc p al cl mt s)) = map_option client_pk cl
   \<and> wm_alert (fst (send_message e svc p al cl mt s)) = map_option alert_pk al
   \<and> message_type (fst (send_message e svc p al cl mt s)) = mt
   \<and> wm_status (fst (send_message e svc p al cl mt s))
       = (case twilio_messages_create e (from_number svc)
                 (if startswith p ''whatsapp:'' then p else ''whatsapp:'' @ p) of
            Inl err \<Rightarrow> ''FAILED'' | Inr ok \<Rightarrow> ''SENT'')"
proof -
  define to_n where "to_n = (if startswith p ''whatsapp:'' then p else ''whatsapp:'' @ p)"
  have tn: "(if \<not> startswith p ''whatsapp:'' then ''whatsapp:'' @ p else p) = to_n"
    by (simp add: to_n_def)
  have "whatsapp_message_table (snd (send_message e svc p al cl mt s))
          = whatsapp_message_table s @ [fst (send_message e svc p al cl mt s)]
        \<and> client_table (snd (send_message e svc p al cl mt s)) = client_table s
        \<and> recipient (fst (send_message e svc p al cl mt s)) = to_n
        \<and> wm_client (fst (send_message e svc p al cl mt s)) = map_option client_pk cl
        \<and> wm_alert (fst (send_message e svc p al cl mt s)) = map_option alert_pk al
        \<and> message_type (fst (send_message e svc p al cl mt s)) = mt
        \<and> wm_status (fst (send_message e svc p al cl mt s))
            = (case twilio_messages_create e (from_number svc) to_n of
                 Inl err \<Rightarrow> ''FAILED'' | Inr ok \<Rightarrow> ''SENT'')"
  proof (cases "twilio_messages_create e (from_number svc) to_n")
    case (Inl err)
    show ?thesis
      unfolding send_message_def Let_def tn
      by (simp add: Inl save_message_def next_message_pk_def save_old_rows)
  next
    case (Inr ok)
    obtain sid st where ok: "ok = (sid, st)" by (cases ok)
    show ?thesis
      unfolding send_message_def Let_def tn
      by (cases al) (simp_all add: Inr ok save_message_def next_message_pk_def save_old_rows)
  qed
  then show ?thesis unfolding to_n_def .
qed

lemma send_to_recipients_rows:
  "whatsapp_message_table (snd (send_to_recipients e svc al rs s))
     = whatsapp_message_table s @ fst (send_to_recipients e svc al rs s)
   \<and> map (\<lambda>m. (recipient m, wm_client m, wm_status m, wm_alert m, message_type m))
         (fst (send_to_recipients e svc al rs s))
       = map (\<lambda>(p, c).
                (if startswith p ''whatsapp:'' then p else ''whatsapp:'' @ p,
                 Some (client_pk c),
                 (case twilio_messages_create e (from_number svc)
                         (if startswith p ''whatsapp:'' then p else ''whatsapp:'' @ p) of
                    Inl err \<Rightarrow> ''FAILED'' | Inr ok \<Rightarrow> ''SENT''),
                 Some (alert_pk al), ''alert'')) rs"
proof (induction rs arbitrary: s)
  case Nil
  then show ?case by simp
next
  case (Cons r rs)
  obtain p c where r: "r = (p, c)" by (cases r)
  let ?m = "fst (send_message e svc p (Some al) (Some c) ''alert'' s)"
  let ?s1 = "snd (send_message e svc p (Some al) (Some c) ''alert'' s)"
  have unfold1: "fst (send_to_recipients e svc al (r # rs) s)
                   = ?m # fst (send_to_recipients e svc al rs ?s1)"
    and unfold2: "snd (send_to_recipients e svc al (r # rs) s)
                   = snd (send_to_recipients e svc al rs ?s1)"
    by (simp_all add: r split: prod.splits)
  note row = send_message_row [of e svc p "Some al" "Some c" "''alert''" s]
  show ?case
    unfolding unfold1 unfold2 using Cons.IH [of ?s1] row by (simp add: r)
qed

lemma get_alert_recipients_device:
  assumes "alert_device al = Some dev"
  shows "get_alert_recipients s al None
           = map (\<lambda>c. (whatsapp_number c, c))
               (filter (\<lambda>c. device_pk dev \<in> device_pk ` set (devices c)
                              \<and> receive_whatsapp_alerts c \<and> is_active c
                              \<and> whatsapp_number c \<noteq> [])
                  (client_table s))"
proof -
  have "filter (\<lambda>c. whatsapp_number c \<noteq> [])
          (filter (\<lambda>c. has_device c dev \<and> receive_whatsapp_alerts c \<and> is_active c)
             (client_table s))
        = filter (\<lambda>c. device_pk dev \<in> device_pk ` set (devices c)
                        \<and> receive_whatsapp_alerts c \<and> is_active c
                        \<and> whatsapp_number c \<noteq> [])
            (client_table s)"
    by (auto simp: has_device_def intro: filter_cong)
  then show ?thesis using assms by (simp add: get_alert_recipients_def)
qed

lemma send_alert_message_rows:
  assumes "enabled svc" and "alert_device al = Some dev"
  shows "\<exists>rows. whatsapp_message_table (snd (send_alert_message e svc al None s))
                   = whatsapp_message_table s @ rows
           \<and> map (\<lambda>m. (recipient m, wm_client m, wm_status m, wm_alert m, message_type m)) rows
               = map (\<lambda>c.
                    (if startswith (whatsapp_number c) ''whatsapp:'' then whatsapp_number c
                     else ''whatsapp:'' @ whatsapp_number c,
                     Some (client_pk c),
                     (case twilio_messages_create e (from_number svc)
                             (if startswith (whatsapp_number c) ''whatsapp:''
                              then whatsapp_number c else ''whatsapp:'' @ whatsapp_number c) of
                        Inl err \<Rightarrow> ''FAILED'' | Inr ok \<Rightarrow> ''SENT''),
                     Some (alert_pk al), ''alert''))
                   (filter (\<lambda>c. device_pk dev \<in> device_pk ` set (devices c)
                                  \<and> receive_whatsapp_alerts c \<and> is_active c
                                  \<and> whatsapp_number c \<noteq> [])
                      (client_table s))"
proof (cases "get_alert_recipients s al None = []")
  case True
  then have "snd (send_alert_message e svc al None s)
               = logger (LogWarning (''No recipients found for alert '' @ show_nat (alert_pk al))) s"
    using assms(1) by (simp add: send_alert_message_def Let_def)
  moreover from True get_alert_recipients_device [OF assms(2), of s]
  have "filter (\<lambda>c. device_pk dev \<in> device_pk ` set (devices c)
                      \<and> receive_whatsapp_alerts c \<and> is_active c
                      \<and> whatsapp_number c \<noteq> [])
          (client_table s) = []"
    by simp
  ultimately show ?thesis by simp
next
  case False
  then have run: "snd (send_alert_message e svc al None s)
                    = snd (send_to_recipients e svc al (get_alert_recipients s al None) s)"
    using assms(1) by (simp add: send_alert_message_def Let_def split: prod.splits)
  note rows = send_to_recipients_rows [of e svc al "get_alert_recipients s al None" s]
  show ?thesis
    unfolding run using rows
    by (intro exI [of _ "fst (send_to_recipients e svc al (get_alert_recipients s al None) s)"])
       (simp add: get_alert_recipients_device [OF assms(2)] comp_def)
qed

lemma get_or_create_device_result:
  assumes "get_or_create_device did dname s = (d, s1)"
  shows "device_id d = did \<and> client_table s1 = client_table s"
  using assms
  by (auto simp: get_or_create_device_def Let_def find_Some_iff split: option.splits)

lemma alert_create_valid:
  assumes "serializer_is_valid rq"
    and "get_or_create_device (get_or_default (rq_device_id rq) ''default'')
           (get_or_default (rq_device_name rq) ''Unknown Device'') s = (dev, s1)"
    and "al = new_alert e rq dev (get_or_default (rq_device_id rq) ''default'') s1"
  shows "alert_create e rq s
           = (Response201 al,
              send_whatsapp_alert e al (s1\<lparr>alert_table := alert_table s1 @ [al]\<rparr>))"
  using assms by (simp add: alert_create_def Let_def)

lemma WhatsAppService_init_from_number:
  assumes "WhatsAppService_init e s = (svc, s1)"
  shows "from_number svc = (case TWILIO_WHATSAPP_NUMBER (cfg e) of
                              None \<Rightarrow> ''whatsapp:+14155238886'' | Some n \<Rightarrow> n)"
  using assms by (auto simp: WhatsAppService_init_def Let_def)

text \<open>
  C5 (as amended). A valid POST creates and stores the alert, with the requested severity
  (INFO when none is given), linked to the device of the request. The WhatsApp dispatcher
  is run if and only if that severity is WARNING or CRITICAL (it always writes to the log,
  and the log is unchanged exactly when the severity is neither). For any other severity,
  INFO in particular, no message row is created. For WARNING or CRITICAL: without Twilio
  credentials exactly one mock row with status SENT is added for the alert; with
  credentials exactly one row is added per recipient, in order, the recipients being the
  clients attached to the alert's device that have WhatsApp alerts enabled, are active and
  have a WhatsApp number; each row is addressed to the client's number (prefixed with
  \<open>whatsapp:\<close> unless it already is), names the client and the alert, has type
  \<open>alert\<close>, and has status SENT when the provider call returns and FAILED when it
  raises. With credentials and no such recipient no row is created.
\<close>

theorem alert_whatsapp_gating:
  assumes "serializer_is_valid rq"
    and "alert_create e rq s = (resp, s')"
  shows "\<exists>al dev. resp = Response201 al
     \<and> alert_device al = Some dev
     \<and> dev = fst (get_or_create_device (get_or_default (rq_device_id rq) ''default'')
                    (get_or_default (rq_device_name rq) ''Unknown Device'') s)
     \<and> severity al = get_or_default (rq_severity rq) ''INFO''
     \<and> (\<exists>a\<in>set (alert_table s'). alert_pk a = alert_pk al \<and> severity a = severity al)
     \<and> (log s' \<noteq> log s \<longleftrightarrow> severity al = ''WARNING'' \<or> severity al = ''CRITICAL'')
     \<and> (severity al \<noteq> ''WARNING'' \<and> severity al \<noteq> ''CRITICAL'' \<longrightarrow>
          whatsapp_message_table s' = whatsapp_message_table s)
     \<and> ((severity al = ''WARNING'' \<or> severity al = ''CRITICAL'')
          \<and> \<not> (truthy (TWILIO_ACCOUNT_SID (cfg e)) \<and> truthy (TWILIO_AUTH_TOKEN (cfg e))) \<longrightarrow>
          (\<exists>m. whatsapp_message_table s' = whatsapp_message_table s @ [m]
                \<and> wm_status m = ''SENT'' \<and> wm_alert m = Some (alert_pk al)
                \<and> message_type m = ''alert''))
     \<and> ((severity al = ''WARNING'' \<or> severity al = ''CRITICAL'')
          \<and> truthy (TWILIO_ACCOUNT_SID (cfg e)) \<and> truthy (TWILIO_AUTH_TOKEN (cfg e)) \<longrightarrow>
          (\<exists>rows. whatsapp_message_table s' = whatsapp_message_table s @ rows
             \<and> map (\<lambda>m. (recipient m, wm_client m, wm_status m, wm_alert m, message_type m)) rows
                 = map (\<lambda>c.
                      (if take 9 (whatsapp_number c) = ''whatsapp:'' then whatsapp_number c
                       else ''whatsapp:'' @ whatsapp_number c,
                       Some (client_pk c),
                       (case twilio_messages_create e
                               (case TWILIO_WHATSAPP_NUMBER (cfg e) of
                                  None \<Rightarrow> ''whatsapp:+14155238886'' | Some n \<Rightarrow> n)
                               (if take 9 (whatsapp_number c) = ''whatsapp:''
                                then whatsapp_number c
                                else ''whatsapp:'' @ whatsapp_number c) of
                          Inl err \<Rightarrow> ''FAILED'' | Inr ok \<Rightarrow> ''SENT''),
                       Some (alert_pk al), ''alert''))
                     (filter (\<lambda>c. device_pk dev \<in> device_pk ` set (devices c)
                                    \<and> receive_whatsapp_alerts c \<and> is_active c
                                    \<and> whatsapp_number c \<noteq> [])
                        (client_table s))))"
proof -
  obtain dev s1 where g:
    "get_or_create_device (get_or_default (rq_device_id rq) ''default'')
       (get_or_default (rq_device_name rq) ''Unknown Device'') s = (dev, s1)"
    by (cases "get_or_create_device (get_or_default (rq_device_id rq) ''default'')
                 (get_or_default (rq_device_name rq) ''Unknown Device'') s") blast
  define al where "al = new_alert e rq dev (get_or_default (rq_device_id rq) ''default'') s1"
  define s2 where "s2 = s1\<lparr>alert_table := alert_table s1 @ [al]\<rparr>"
  from alert_create_valid [OF assms(1) g al_def] assms(2)
  have resp: "resp = Response201 al" and s': "s' = send_whatsapp_alert e al s2"
    by (simp_all add: s2_def)
  have dev: "dev = fst (get_or_create_device (get_or_default (rq_device_id rq) ''default'')
                          (get_or_default (rq_device_name rq) ''Unknown Device'') s)"
    by (simp add: g)
  from get_or_create_device_frame [OF g] get_or_create_device_result [OF g]
  have f1: "whatsapp_message_table s2 = whatsapp_message_table s" "log s2 = log s"
    "client_table s2 = client_table s"
    by (simp_all add: s2_def)
  have sev: "severity al = get_or_default (rq_severity rq) ''INFO''"
    and adev: "alert_device al = Some dev"
    by (simp_all add: al_def new_alert_def)
  have stored2: "\<exists>a\<in>set (alert_table s2). alert_pk a = alert_pk al \<and> severity a = severity al"
    by (simp add: s2_def)
  show ?thesis
  proof (cases "severity al = ''WARNING'' \<or> severity al = ''CRITICAL''")
    case False
    then have "s' = s2" by (auto simp: s' send_whatsapp_alert_def)
    with False resp sev adev dev stored2 f1 show ?thesis by auto
  next
    case True
    obtain svc s3 where i: "WhatsAppService_init e s2 = (svc, s3)"
      by (cases "WhatsAppService_init e s2") blast
    note fr = WhatsAppService_init_frame [OF i]
    note fn = WhatsAppService_init_from_number [OF i]
    have run: "s' = snd (send_alert_message e svc al None s3)"
      using True by (auto simp: s' send_whatsapp_alert_def i split: prod.splits)
    have stored3: "\<exists>a\<in>set (alert_table s3). alert_pk a = alert_pk al \<and> severity a = severity al"
      using stored2 fr by simp
    note eff = send_alert_message_effect [OF stored3, of e svc]
    have "length (log s) \<le> length (log s3)"
      using fr f1 by (auto split: if_splits)
    with eff have "length (log s) < length (log s')"
      unfolding run by linarith
    then have lg: "log s' \<noteq> log s" by auto
    have mock: "\<exists>m. whatsapp_message_table s' = whatsapp_message_table s @ [m]
                  \<and> wm_status m = ''SENT'' \<and> wm_alert m = Some (alert_pk al)
                  \<and> message_type m = ''alert''"
      if "\<not> (truthy (TWILIO_ACCOUNT_SID (cfg e)) \<and> truthy (TWILIO_AUTH_TOKEN (cfg e)))"
    proof -
      from that fr have "\<not> enabled svc" by simp
      with eff show ?thesis unfolding run using fr f1 by simp
    qed
    have real: "\<exists>rows. whatsapp_message_table s' = whatsapp_message_table s @ rows
             \<and> map (\<lambda>m. (recipient m, wm_client m, wm_status m, wm_alert m, message_type m)) rows
                 = map (\<lambda>c.
                      (if take 9 (whatsapp_number c) = ''whatsapp:'' then whatsapp_number c
                       else ''whatsapp:'' @ whatsapp_number c,
                       Some (client_pk c),
                       (case twilio_messages_create e
                               (case TWILIO_WHATSAPP_NUMBER (cfg e) of
                                  None \<Rightarrow> ''whatsapp:+14155238886'' | Some n \<Rightarrow> n)
                               (if take 9 (whatsapp_number c) = ''whatsapp:''
                                then whatsapp_number c
                                else ''whatsapp:'' @ whatsapp_number c) of
                          Inl err \<Rightarrow> ''FAILED'' | Inr ok \<Rightarrow> ''SENT''),
                       Some (alert_pk al), ''alert''))
                     (filter (\<lambda>c. device_pk dev \<in> device_pk ` set (devices c)
                                    \<and> receive_whatsapp_alerts c \<and> is_active c
                                    \<and> whatsapp_number c \<noteq> [])
                        (client_table s))"
      if "truthy (TWILIO_ACCOUNT_SID (cfg e)) \<and> truthy (TWILIO_AUTH_TOKEN (cfg e))"
    proof -
      from that fr have en: "enabled svc" by simp
      have tbl: "whatsapp_message_table s3 = whatsapp_message_table s"
        and cl: "client_table s3 = client_table s"
        using fr f1 by simp_all
      have nine: "length ''whatsapp:'' = 9" by simp
      have sw: "startswith x ''whatsapp:'' = (take 9 x = ''whatsapp:'')" for x
        by (simp only: startswith_def nine)
      from send_alert_message_rows [OF en adev, of e s3]
      show ?thesis
        unfolding run tbl cl fn sw .
    qed
    from eff have stored': "\<exists>a\<in>set (alert_table s'). alert_pk a = alert_pk al
                               \<and> severity a = severity al"
      unfolding run by blast
    show ?thesis
      using True resp sev adev dev stored' lg mock real by blast
  qed
qed

theorem alert_whatsapp_gating_witness:
  "serializer_is_valid info_request \<and> serializer_is_valid critical_request
   \<and> whatsapp_message_table (snd (alert_create dev_env info_request pooled_state)) = []
   \<and> log (snd (alert_create dev_env info_request pooled_state)) = []
   \<and> map wm_status (whatsapp_message_table (snd (alert_create dev_env critical_request pooled_state)))
       = [''SENT'']
   \<and> log (snd (alert_create dev_env critical_request pooled_state)) \<noteq> []
   \<and> map (\<lambda>m. (recipient m, wm_client m, wm_status m, message_type m))
         (whatsapp_message_table (snd (alert_create live_env critical_request pooled_state)))
       = [(''whatsapp:+2348000000001'', Some 1, ''SENT'', ''alert'')]"
proof -
  have v: "serializer_is_valid info_request" "serializer_is_valid critical_request"
    by code_simp+
  have t: "whatsapp_message_table pooled_state = []" "log pooled_state = []"
    by (simp_all add: pooled_state_def empty_state_def)
  have c: "\<not> (truthy (TWILIO_ACCOUNT_SID (cfg dev_env)) \<and> truthy (TWILIO_AUTH_TOKEN (cfg dev_env)))"
    by (simp add: dev_env_def no_settings_def truthy_def)
  have i: "get_or_default (rq_severity info_request) ''INFO'' = ''INFO''"
    by (simp add: info_request_def get_or_default_def)
  have k: "get_or_default (rq_severity critical_request) ''INFO'' = ''CRITICAL''"
    by (simp add: critical_request_def get_or_default_def)
  from alert_whatsapp_gating [OF v(1) prod.collapse [symmetric], of dev_env pooled_state]
  have "whatsapp_message_table (snd (alert_create dev_env info_request pooled_state)) = []"
    and "log (snd (alert_create dev_env info_request pooled_state)) = []"
    unfolding i t by auto
  moreover
  from alert_whatsapp_gating [OF v(2) prod.collapse [symmetric], of dev_env pooled_state] c
  have "map wm_status (whatsapp_message_table
          (snd (alert_create dev_env critical_request pooled_state))) = [''SENT'']"
    and "log (snd (alert_create dev_env critical_request pooled_state)) \<noteq> []"
    unfolding k t by auto
  moreover
  have live: "truthy (TWILIO_ACCOUNT_SID (cfg live_env))" "truthy (TWILIO_AUTH_TOKEN (cfg live_env))"
    "TWILIO_WHATSAPP_NUMBER (cfg live_env) = None"
    "twilio_messages_create live_env f x = Inr (''SM1'', ''queued'')" for f x
    by (simp_all add: live_env_def live_settings_def truthy_def)
  have dev: "fst (get_or_create_device (get_or_default (rq_device_id critical_request) ''default'')
                    (get_or_default (rq_device_name critical_request) ''Unknown Device'')
                    pooled_state) = device_a"
    by (simp add: get_or_create_device_def critical_request_def get_or_default_def
          pooled_state_def empty_state_def device_a_def device_b_def)
  have subs: "filter (\<lambda>c. device_pk device_a \<in> device_pk ` set (devices c)
                            \<and> receive_whatsapp_alerts c \<and> is_active c
                            \<and> whatsapp_number c \<noteq> [])
                (client_table pooled_state) = [acme]"
    by (simp add: pooled_state_def empty_state_def acme_def newcomer_def device_a_def device_b_def)
  have acme: "whatsapp_number acme = ''+2348000000001''" "client_pk acme = 1"
    by (simp_all add: acme_def)
  from alert_whatsapp_gating [OF v(2) prod.collapse [symmetric], of live_env pooled_state]
  have "map (\<lambda>m. (recipient m, wm_client m, wm_status m, message_type m))
          (whatsapp_message_table (snd (alert_create live_env critical_request pooled_state)))
        = [(''whatsapp:+2348000000001'', Some 1, ''SENT'', ''alert'')]"
    unfolding k t dev by (auto simp: live subs acme map_eq_Cons_conv)
  ultimately show ?thesis using v by simp
qed

theorem critical_alert_without_recipient_counterexample:
  "serializer_is_valid orphan_request
   \<and> enabled (fst (WhatsAppService_init live_env pooled_state)) = True
   \<and> fst (alert_create live_env orphan_request pooled_state) = Response201 orphan_alert
   \<and> severity orphan_alert = ''CRITICAL''
   \<and> whatsapp_message_table (snd (alert_create live_env orphan_request pooled_state)) = []"
proof -
  have v: "serializer_is_valid orphan_request"
    by code_simp
  have sev: "severity orphan_alert = ''CRITICAL''"
    by (simp add: orphan_alert_def)
  have on: "enabled (fst (WhatsAppService_init live_env pooled_state)) = True"
    by (simp add: WhatsAppService_init_def live_env_def live_settings_def truthy_def Let_def)
  have did: "get_or_default (rq_device_id orphan_request) ''default'' = ''INV-Z''"
    "get_or_default (rq_device_name orphan_request) ''Unknown Device'' = ''Unknown Device''"
    by (simp_all add: orphan_request_def get_or_default_def)
  define dz where
    "dz = \<lparr>device_pk = 3, device_id = ''INV-Z'', device_name = ''Unknown Device''\<rparr>"
  define s1 where "s1 = pooled_state\<lparr>device_table := device_table pooled_state @ [dz]\<rparr>"
  have g: "get_or_create_device (get_or_default (rq_device_id orphan_request) ''default'')
             (get_or_default (rq_device_name orphan_request) ''Unknown Device'') pooled_state
           = (dz, s1)"
    unfolding did
    by (simp add: get_or_create_device_def fresh_pk_def pooled_state_def empty_state_def
          device_a_def device_b_def dz_def s1_def Let_def)
  have tabs: "alert_table s1 = []" "whatsapp_message_table s1 = []"
    "client_table s1 = client_table pooled_state"
    by (simp_all add: s1_def pooled_state_def empty_state_def)
  have al: "orphan_alert
              = new_alert live_env orphan_request dz
                  (get_or_default (rq_device_id orphan_request) ''default'') s1"
    unfolding did
    by (simp add: orphan_alert_def new_alert_def tabs fresh_pk_def dz_def orphan_request_def
          get_or_default_def strip_def isspace_def live_env_def)
  define s2 where "s2 = s1\<lparr>alert_table := alert_table s1 @ [orphan_alert]\<rparr>"
  note cr = alert_create_valid [OF v g al, folded s2_def]
  obtain svc s3 where i: "WhatsAppService_init live_env s2 = (svc, s3)"
    by (cases "WhatsAppService_init live_env s2") blast
  note fr = WhatsAppService_init_frame [OF i]
  have en: "enabled svc"
    using fr by (simp add: live_env_def live_settings_def truthy_def)
  have adev: "alert_device orphan_alert = Some dz"
    by (simp add: orphan_alert_def dz_def)
  have run: "snd (alert_create live_env orphan_request pooled_state)
               = snd (send_alert_message live_env svc orphan_alert None s3)"
    by (simp add: cr send_whatsapp_alert_def sev i split: prod.splits)
  have t3: "whatsapp_message_table s3 = []" "client_table s3 = client_table pooled_state"
    using fr by (simp_all add: s2_def tabs)
  have nobody: "filter (\<lambda>c. device_pk dz \<in> device_pk ` set (devices c)
                              \<and> receive_whatsapp_alerts c \<and> is_active c
                              \<and> whatsapp_number c \<noteq> [])
                  (client_table pooled_state) = []"
    by (simp add: dz_def pooled_state_def empty_state_def acme_def newcomer_def
          device_a_def device_b_def)
  from send_alert_message_rows [OF en adev, of live_env s3]
  have "whatsapp_message_table (snd (send_alert_message live_env svc orphan_alert None s3)) = []"
    unfolding t3 nobody by simp
  with run have "whatsapp_message_table (snd (alert_create live_env orphan_request pooled_state)) = []"
    by simp
  moreover have "fst (alert_create live_env orphan_request pooled_state) = Response201 orphan_alert"
    by (simp add: cr)
  ultimately show ?thesis using v sev on by simp
qed

text \<open>The serializer refuses a blank message, an over-long alert type and an empty device id.\<close>

lemma serializer_rejects_blank_texts:
  "\<not> serializer_is_valid (info_request\<lparr>rq_message := Some ''   ''\<rparr>)
   \<and> \<not> serializer_is_valid (info_request\<lparr>rq_alert_type := Some (replicate 51 CHR ''A'')\<rparr>)
   \<and> \<not> serializer_is_valid (info_request\<lparr>rq_device_id := Some []\<rparr>)
   \<and> fst (alert_create dev_env (info_request\<lparr>rq_message := Some ''   ''\<rparr>) pooled_state)
       = Response400 ''invalid''"
  by code_simp
section \<open>Properties of the alert lifecycle\<close>

lemma get_object_pk:
  assumes "get_object s pk = Some a"
  shows "alert_pk a = pk"
  using assms by (auto simp: get_object_def find_Some_iff)

lemma find_replaced:
  assumes "alert_pk b = pk"
  shows "find (\<lambda>a. alert_pk a = pk) (map (\<lambda>r. if alert_pk r = pk then b else r) xs)
           = (if find (\<lambda>a. alert_pk a = pk) xs = None then None else Some b)"
  using assms by (induction xs) auto

lemma get_object_save_alert:
  assumes "get_object s pk = Some a" and "alert_pk b = pk"
  shows "get_object (save_alert b s) pk = Some b"
  using assms find_replaced [OF assms(2), of "alert_table s"]
  by (simp add: get_object_def save_alert_def)

lemma acknowledge_status:
  assumes "get_object s pk = Some a"
  shows "get_object (snd (acknowledge pk s)) pk = Some (a\<lparr>status := ''ACKNOWLEDGED''\<rparr>)"
  using assms get_object_save_alert [OF assms, of "a\<lparr>status := ''ACKNOWLEDGED''\<rparr>"]
        get_object_pk [OF assms]
  by (simp add: acknowledge_def)

lemma resolve_status:
  assumes "get_object s pk = Some a"
  shows "get_object (snd (resolve e pk s)) pk
           = Some (a\<lparr>status := ''RESOLVED'', resolved_at := Some (now e)\<rparr>)"
  using assms
        get_object_save_alert [OF assms, of "a\<lparr>status := ''RESOLVED'', resolved_at := Some (now e)\<rparr>"]
        get_object_pk [OF assms]
  by (simp add: resolve_def)

lemma apply_action_status:
  assumes "get_object s pk = Some a"
  shows "\<exists>b. get_object (apply_action e pk act s) pk = Some b \<and> status b = status_after act"
  using acknowledge_status [OF assms] resolve_status [OF assms, of e]
  by (cases act) (simp_all add: apply_action_def status_after_def)

lemma apply_actions_status:
  assumes "get_object s pk = Some a" and "acts \<noteq> []"
  shows "\<exists>b. get_object (apply_actions e pk acts s) pk = Some b
              \<and> status b = status_after (last acts)"
  using assms
proof (induction acts arbitrary: s a)
  case Nil
  then show ?case by simp
next
  case (Cons act acts)
  from apply_action_status [OF Cons.prems(1), of e act]
  obtain b where b: "get_object (apply_action e pk act s) pk = Some b"
    "status b = status_after act"
    by blast
  show ?case
  proof (cases "acts = []")
    case True
    with b show ?thesis by simp
  next
    case False
    from Cons.IH [OF b(1) False] False show ?thesis by simp
  qed
qed

text \<open>
  C9 (as amended). On an existing alert, acknowledge sets the status to ACKNOWLEDGED and
  resolve sets it to RESOLVED, whatever the status was. So after any non-empty sequence
  of operator actions the status is the one set by the last action and is never ACTIVE; a
  single action moves the status backward in the order ACTIVE, ACKNOWLEDGED, RESOLVED
  exactly when it is an acknowledge of a RESOLVED alert.
\<close>

theorem alert_status_transitions:
  assumes "get_object s pk = Some a"
  shows "alert_status (apply_action e pk Acknowledge s) pk = Some ''ACKNOWLEDGED''
     \<and> alert_status (apply_action e pk Resolve s) pk = Some ''RESOLVED''
     \<and> (acts \<noteq> [] \<longrightarrow>
          alert_status (apply_actions e pk acts s) pk = Some (status_after (last acts))
          \<and> alert_status (apply_actions e pk acts s) pk \<noteq> Some ''ACTIVE'')
     \<and> (\<forall>st. alert_status (apply_action e pk act s) pk = Some st \<longrightarrow>
          (status_rank st < status_rank (status a)
             \<longleftrightarrow> act = Acknowledge \<and> status a = ''RESOLVED''))"
proof (intro conjI impI allI)
  from apply_action_status [OF assms, of e Acknowledge]
  show "alert_status (apply_action e pk Acknowledge s) pk = Some ''ACKNOWLEDGED''"
    by (auto simp: alert_status_def status_after_def)
  from apply_action_status [OF assms, of e Resolve]
  show "alert_status (apply_action e pk Resolve s) pk = Some ''RESOLVED''"
    by (auto simp: alert_status_def status_after_def)
next
  assume ne: "acts \<noteq> []"
  from apply_actions_status [OF assms ne, of e]
  show l: "alert_status (apply_actions e pk acts s) pk = Some (status_after (last acts))"
    by (auto simp: alert_status_def)
  show "alert_status (apply_actions e pk acts s) pk \<noteq> Some ''ACTIVE''"
    unfolding l by (cases "last acts") (simp_all add: status_after_def)
next
  fix st
  assume st: "alert_status (apply_action e pk act s) pk = Some st"
  from apply_action_status [OF assms, of e act] st
  have "st = status_after act"
    by (auto simp: alert_status_def)
  then show "status_rank st < status_rank (status a)
               \<longleftrightarrow> act = Acknowledge \<and> status a = ''RESOLVED''"
    by (cases act) (auto simp: status_after_def status_rank_def)
qed

theorem alert_status_transitions_witness:
  "get_object alarm_state 1 = Some overvoltage
   \<and> alert_status (apply_action dev_env 1 Acknowledge alarm_state) 1 = Some ''ACKNOWLEDGED''
   \<and> alert_status (apply_action dev_env 1 Resolve alarm_state) 1 = Some ''RESOLVED''
   \<and> alert_status (apply_actions dev_env 1 [Acknowledge, Resolve] alarm_state) 1
       = Some ''RESOLVED''
   \<and> \<not> status_rank ''RESOLVED'' < status_rank (status overvoltage)"
proof -
  have g: "get_object alarm_state 1 = Some overvoltage"
    by code_simp
  note t = alert_status_transitions [OF g, of dev_env "[Acknowledge, Resolve]" Resolve]
  from t have "alert_status (apply_action dev_env 1 Acknowledge alarm_state) 1
                 = Some ''ACKNOWLEDGED''"
    and r: "alert_status (apply_action dev_env 1 Resolve alarm_state) 1 = Some ''RESOLVED''"
    and "alert_status (apply_actions dev_env 1 [Acknowledge, Resolve] alarm_state) 1
           = Some ''RESOLVED''"
    by (simp_all add: status_after_def)
  moreover from t r have "\<not> status_rank ''RESOLVED'' < status_rank (status overvoltage)"
    by simp
  ultimately show ?thesis using g by simp
qed

theorem resolved_alert_reacknowledged_counterexample:
  "alert_status alarm_state 1 = Some ''ACTIVE''
   \<and> alert_status (apply_actions dev_env 1 [Resolve] alarm_state) 1 = Some ''RESOLVED''
   \<and> alert_status (apply_actions dev_env 1 [Resolve, Acknowledge] alarm_state) 1
       = Some ''ACKNOWLEDGED''
   \<and> status_rank ''ACKNOWLEDGED'' < status_rank ''RESOLVED''"
  by code_simp

section \<open>Properties of rendering\<close>

text \<open>The fixed-point format prints exactly \<open>p\<close> digits after the point.\<close>

lemma show_nat_length:
  "n < 10 ^ p \<Longrightarrow> 0 < p \<Longrightarrow> length (show_nat n) \<le> p"
proof (induction n arbitrary: p rule: show_nat.induct)
  case (1 n)
  show ?case
  proof (cases "n < 10")
    case True
    with "1.prems" show ?thesis by (simp add: show_nat.simps [of n])
  next
    case False
    from "1.prems" obtain q where q: "p = Suc q" by (cases p) auto
    from False "1.prems" q have "0 < q" by (cases q) auto
    moreover from "1.prems" q have "n div 10 < 10 ^ q"
      by (simp add: less_mult_imp_div_less mult.commute)
    ultimately have "length (show_nat (n div 10)) \<le> q"
      using "1.IH" [OF False] by blast
    with False q show ?thesis by (simp add: show_nat.simps [of n])
  qed
qed

lemma format_f_decimals:
  assumes "0 < p"
  shows "\<exists>ip fp. format_f p comma x = (if x < 0 then ''-'' else []) @ ip @ ''.'' @ fp
                  \<and> length fp = p"
proof -
  let ?m = "nat (round_half_even (\<bar>x\<bar> * 10 ^ p))"
  have "?m mod 10 ^ p < 10 ^ p" by simp
  from show_nat_length [OF this assms]
  have "length (pad_left p (show_nat (?m mod 10 ^ p))) = p"
    by (simp add: pad_left_def)
  then show ?thesis using assms
    by (auto simp: format_f_def Let_def)
qed

text \<open>
  C8 (as amended). For every report, HTML, plain text and PDF print the same text for
  total consumption and daily average (2 decimals, kWh), total cost (2 decimals with
  thousands separators), peak power (0 decimals, W) and uptime (1 decimal, hours). The
  average power factor is printed with 2 decimals in HTML and plain text and with
  3 decimals in the PDF.
\<close>

theorem renderings_agree_except_power_factor:
  "map_of (generate_html_report r) ''Total Consumption''
     = Some (format_f 2 False (total_consumption_kwh r) @ '' kWh'')
   \<and> map_of (generate_text_report r) ''Total Consumption''
       = map_of (generate_html_report r) ''Total Consumption''
   \<and> map_of (generate_report_pdf r) ''Total Consumption''
       = map_of (generate_html_report r) ''Total Consumption''
   \<and> map_of (generate_html_report r) ''Daily Average''
       = Some (format_f 2 False (avg_daily_consumption r) @ '' kWh'')
   \<and> map_of (generate_text_report r) ''Daily Average''
       = map_of (generate_html_report r) ''Daily Average''
   \<and> map_of (generate_report_pdf r) ''Daily Average''
       = map_of (generate_html_report r) ''Daily Average''
   \<and> map_of (generate_html_report r) ''Total Cost''
       = Some (naira @ format_f 2 True (total_cost r))
   \<and> map_of (generate_text_report r) ''Total Cost''
       = map_of (generate_html_report r) ''Total Cost''
   \<and> map_of (generate_report_pdf r) ''Total Cost''
       = map_of (generate_html_report r) ''Total Cost''
   \<and> map_of (generate_html_report r) ''Peak Power''
       = Some (format_f 0 False (peak_power r) @ '' W'')
   \<and> map_of (generate_text_report r) ''Peak Power''
       = map_of (generate_html_report r) ''Peak Power''
   \<and> map_of (generate_report_pdf r) ''Peak Power''
       = map_of (generate_html_report r) ''Peak Power''
   \<and> map_of (generate_html_report r) ''System Uptime''
       = Some (format_f 1 False (uptime_hours r) @ '' hours'')
   \<and> map_of (generate_text_report r) ''System Uptime''
       = map_of (generate_html_report r) ''System Uptime''
   \<and> map_of (generate_report_pdf r) ''System Uptime''
       = map_of (generate_html_report r) ''System Uptime''
   \<and> map_of (generate_html_report r) ''Average Power Factor''
       = Some (format_f 2 False (avg_power_factor r))
   \<and> map_of (generate_text_report r) ''Average Power Factor''
       = Some (format_f 2 False (avg_power_factor r))
   \<and> map_of (generate_report_pdf r) ''Average Power Factor''
       = Some (format_f 3 False (avg_power_factor r))"
  by (simp add: generate_html_report_def generate_text_report_def generate_report_pdf_def
        create_consumption_summary_def create_performance_metrics_def)

theorem power_factor_rendering_counterexample:
  "avg_power_factor sample_report = 53 / 60
   \<and> map_of (generate_html_report sample_report) ''Average Power Factor'' = Some ''0.88''
   \<and> map_of (generate_text_report sample_report) ''Average Power Factor'' = Some ''0.88''
   \<and> map_of (generate_report_pdf sample_report) ''Average Power Factor'' = Some ''0.883''
   \<and> map_of (generate_html_report sample_report) ''Total Consumption'' = Some ''45.20 kWh''
   \<and> map_of (generate_report_pdf sample_report) ''Total Consumption'' = Some ''45.20 kWh''"
proof -
  have pf: "avg_power_factor sample_report = 53 / 60"
    by (simp add: sample_report_def)
  have two: "format_f 2 False (avg_power_factor sample_report) = ''0.88''"
    by (simp add: sample_report_def format_f_def round_half_even_def show_nat.simps
          pad_left_def digit_char_def)
  have three: "format_f 3 False (avg_power_factor sample_report) = ''0.883''"
    by (simp add: sample_report_def format_f_def round_half_even_def show_nat.simps
          pad_left_def digit_char_def)
  have kwh: "format_f 2 False (total_consumption_kwh sample_report) = ''45.20''"
    by (simp add: sample_report_def format_f_def round_half_even_def show_nat.simps
          pad_left_def digit_char_def)
  have rows:
    "map_of (generate_html_report sample_report) ''Average Power Factor'' = Some ''0.88''
     \<and> map_of (generate_text_report sample_report) ''Average Power Factor'' = Some ''0.88''
     \<and> map_of (generate_report_pdf sample_report) ''Average Power Factor'' = Some ''0.883''
     \<and> map_of (generate_html_report sample_report) ''Total Consumption'' = Some ''45.20 kWh''
     \<and> map_of (generate_report_pdf sample_report) ''Total Consumption'' = Some ''45.20 kWh''"
    by (simp add: generate_html_report_def generate_text_report_def generate_report_pdf_def
          create_consumption_summary_def create_performance_metrics_def two three kwh)
  from pf rows show ?thesis by blast
qed

end
